theory Spec2Isabelle
  imports Main
begin

section \<open>safe\_cli/prompt\_parser.py: values and exceptions\<close>

text \<open>
  Python strings are modelled as \<^typ>\<open>string\<close>. The positional arguments carried by an
  exception (\<open>e.args\<close>) are texts (a message, an address) or integers (a count, a balance).
\<close>

datatype payload = PStr string | PInt int

definition digit_char :: "nat \<Rightarrow> char" where
  "digit_char d = ''0123456789'' ! d"

fun str_nat :: "nat \<Rightarrow> string" where
  "str_nat n = (if n < 10 then [digit_char n] else str_nat (n div 10) @ [digit_char (n mod 10)])"

declare str_nat.simps [simp del]

definition str_int :: "int \<Rightarrow> string" where
  "str_int i = (if i < 0 then CHR ''-'' # str_nat (nat (- i)) else str_nat (nat i))"

text \<open>What an f-string replacement field \<open>{v}\<close> renders: \<open>str(v)\<close>.\<close>

fun format :: "payload \<Rightarrow> string" where
  "format (PStr s) = s"
| "format (PInt i) = str_int i"

text \<open>
  Modelled from the spec: the exception classes are imported from \<open>.api.base_api\<close> and
  \<open>.safe_operator\<close>, whose class definitions are not part of this file. Following the
  specification (the set of kinds is disjoint, each failure surfaces as exactly one concrete
  kind), an exception is an instance of exactly one of the classes below; \<open>IndexError\<close>,
  \<open>AttributeError\<close> and \<open>OtherException name\<close> stand for every class outside the imported ones.
\<close>

datatype exn_class =
    BaseAPIException
  | NotEnoughSignatures
  | SenderRequiredException
  | ExistingOwnerException
  | NonExistingOwnerException
  | ThresholdLimitException
  | SameFallbackHandlerException
  | FallbackHandlerNotSupportedException
  | SameMasterCopyException
  | InvalidMasterCopyException
  | SafeAlreadyUpdatedException
  | NotEnoughEtherToSend
  | NotEnoughTokenToSend
  | IndexError
  | AttributeError
  | OtherException string

datatype exn = Exn (cls: exn_class) (args: "payload list")

section \<open>The address validator\<close>

text \<open>
  \<open>Web3.isChecksumAddress\<close> belongs to the web3 library; it is a parameter of the model.
  A type function of argparse either returns the converted value or raises
  \<open>ArgumentTypeError\<close> (with its message) or \<open>ValueError\<close>.
\<close>

datatype conv_error = ArgumentTypeError string | ValueError

definition check_ethereum_address :: "(string \<Rightarrow> bool) \<Rightarrow> string \<Rightarrow> conv_error + string" where
  "check_ethereum_address isChecksumAddress address =
     (if \<not> isChecksumAddress address
      then Inl (ArgumentTypeError (address @ '' is not a valid checksummed ethereum address''))
      else Inr address)"

section \<open>Python's \<open>int(str)\<close>\<close>

text \<open>
  A character of a string stands for the code point of the same number; code points from
  256 on are not represented. The \<open>int\<close> of CPython 3.11 on a string:
  \<^item> a string of ASCII characters is taken as it is; in any other string the white space
    above the ASCII range (U+0085 and U+00A0) becomes a blank and every other character from
    127 on becomes \<open>?\<close> (none of them is a decimal digit), which no later step accepts;
  \<^item> the white space of C (\<open>Py_ISSPACE\<close>: tab, line feed, vertical tab, form feed, carriage
    return, blank) is skipped at both ends, and one sign is accepted;
  \<^item> then come decimal digits, in which single underscores may separate digits;
  \<^item> a string with more digits than \<open>sys.get_int_max_str_digits()\<close>, 4300 unless the
    interpreter is told otherwise, is refused.

  Every refusal is a \<open>ValueError\<close>. The result is unbounded.
\<close>

definition is_digit :: "char \<Rightarrow> bool" where
  "is_digit c = (c \<in> set ''0123456789'')"

definition digit_val :: "char \<Rightarrow> nat" where
  "digit_val c = length (takeWhile (\<lambda>d. d \<noteq> c) ''0123456789'')"

definition is_ascii :: "string \<Rightarrow> bool" where
  "is_ascii s = list_all (\<lambda>c. (of_char c :: nat) < 128) s"

definition transform_decimal_and_space_to_ascii :: "string \<Rightarrow> string" where
  "transform_decimal_and_space_to_ascii s =
     (if is_ascii s then s
      else map (\<lambda>c. if (of_char c :: nat) < 127 then c
                    else if (of_char c :: nat) \<in> set [133, 160] then CHR '' ''
                    else CHR ''?'') s)"

definition is_space :: "char \<Rightarrow> bool" where
  "is_space c = (of_char c \<in> set [9, 10, 11, 12, 13, 32 :: nat])"

definition strip :: "string \<Rightarrow> string" where
  "strip s = rev (dropWhile is_space (rev (dropWhile is_space s)))"

fun int_digits :: "nat \<Rightarrow> string \<Rightarrow> nat option" where
  "int_digits acc [] = Some acc"
| "int_digits acc [c] = (if is_digit c then Some (acc * 10 + digit_val c) else None)"
| "int_digits acc (c # d # ds) =
     (if is_digit c then int_digits (acc * 10 + digit_val c) (d # ds)
      else if c = CHR ''_'' \<and> is_digit d then int_digits (acc * 10 + digit_val d) ds
      else None)"

definition int_unsigned :: "string \<Rightarrow> nat option" where
  "int_unsigned s = (case s of [] \<Rightarrow> None
                     | c # cs \<Rightarrow> if is_digit c then int_digits (digit_val c) cs else None)"

definition int_max_str_digits :: nat where
  "int_max_str_digits = 4300"

definition py_int :: "string \<Rightarrow> conv_error + int" where
  "py_int s =
     (let t = strip (transform_decimal_and_space_to_ascii s);
          negative = (t \<noteq> [] \<and> hd t = CHR ''-'');
          body = (if t \<noteq> [] \<and> (hd t = CHR ''-'' \<or> hd t = CHR ''+'') then tl t else t)
      in case int_unsigned body of
           None \<Rightarrow> Inl ValueError
         | Some n \<Rightarrow>
             if int_max_str_digits < length (filter is_digit body) then Inl ValueError
             else Inr (if negative then - int n else int n))"

section \<open>Namespaces, actions and the registry of sub-commands\<close>

datatype pyval = VNone | VStr string | VInt int | VList "pyval list"

text \<open>The handlers defined inside \<open>get_prompt_parser\<close>, by their names.\<close>

datatype handler =
    show_cli_owners | load_cli_owners | unload_cli_owners
  | add_owner | remove_owner | change_fallback_handler | change_master_copy
  | change_threshold | send_ether | send_erc20 | send_erc721
  | get_threshold | get_nonce | get_owners
  | enable_module | disable_module | update_version
  | get_info | get_refresh | get_balances | get_history

text \<open>
  An \<open>argparse.Namespace\<close>: its attributes in the order they were first set, the attribute
  \<open>func\<close> (set through \<open>set_defaults\<close>), and the unrecognised argument strings a sub-parser
  leaves for the top-level parser.
\<close>

record namespace =
  attrs :: "(string \<times> pyval) list"
  func :: "handler option"
  unrecognized :: "string list"

fun update_attr :: "string \<Rightarrow> pyval \<Rightarrow> (string \<times> pyval) list \<Rightarrow> (string \<times> pyval) list" where
  "update_attr k v [] = [(k, v)]"
| "update_attr k v ((k', v') # kvs) =
     (if k' = k then (k, v) # kvs else (k', v') # update_attr k v kvs)"

definition setattr :: "namespace \<Rightarrow> string \<Rightarrow> pyval \<Rightarrow> namespace" where
  "setattr ns k v = ns\<lparr>attrs := update_attr k v (attrs ns)\<rparr>"

definition getattr :: "namespace \<Rightarrow> string \<Rightarrow> pyval option" where
  "getattr ns k = map_of (attrs ns) k"

text \<open>
  \<open>type=str\<close>, \<open>type=check_ethereum_address\<close> and \<open>type=int\<close>; \<open>nargs\<close> absent, \<open>nargs='+'\<close>,
  and the \<open>PARSER\<close> arity of the sub-parsers action.
\<close>

datatype argtype = TStr | TAddress | TInt

datatype nargs = NARGS_None | ONE_OR_MORE | PARSER

datatype action = Store (dest: string) (atype: argtype) (nargs_of_store: nargs) | SubParsers

fun nargs_of :: "action \<Rightarrow> nargs" where
  "nargs_of (Store d t n) = n"
| "nargs_of SubParsers = PARSER"

text \<open>The calls \<open>add_parser\<close>, \<open>add_argument\<close> and \<open>set_defaults\<close>, in source order.\<close>

definition subparsers :: "(string \<times> action list \<times> handler) list" where
  "subparsers =
    [(''show_cli_owners'', [], show_cli_owners),
     (''load_cli_owners'', [Store ''keys'' TStr ONE_OR_MORE], load_cli_owners),
     (''unload_cli_owners'', [Store ''addresses'' TAddress ONE_OR_MORE], unload_cli_owners),
     (''change_threshold'', [Store ''threshold'' TInt NARGS_None], change_threshold),
     (''add_owner'', [Store ''address'' TAddress NARGS_None], add_owner),
     (''remove_owner'', [Store ''address'' TAddress NARGS_None], remove_owner),
     (''change_fallback_handler'', [Store ''address'' TAddress NARGS_None], change_fallback_handler),
     (''change_master_copy'', [Store ''address'' TAddress NARGS_None], change_master_copy),
     (''update'', [], update_version),
     (''send_ether'',
        [Store ''address'' TAddress NARGS_None, Store ''value'' TInt NARGS_None], send_ether),
     (''send_erc20'',
        [Store ''address'' TAddress NARGS_None, Store ''token_address'' TAddress NARGS_None,
         Store ''value'' TInt NARGS_None], send_erc20),
     (''send_erc721'',
        [Store ''address'' TAddress NARGS_None, Store ''token_address'' TAddress NARGS_None,
         Store ''token_id'' TInt NARGS_None], send_erc721),
     (''get_threshold'', [], get_threshold),
     (''get_nonce'', [], get_nonce),
     (''get_owners'', [], get_owners),
     (''enable_module'', [Store ''address'' TAddress NARGS_None], enable_module),
     (''disable_module'', [Store ''address'' TAddress NARGS_None], disable_module),
     (''info'', [], get_info),
     (''refresh'', [], get_refresh),
     (''balances'', [], get_balances),
     (''history'', [], get_history)]"

section \<open>argparse: how \<open>parse_args\<close> ends\<close>

text \<open>
  \<open>parse_args\<close> either returns a namespace or does not return:
  \<^item> \<open>Error m\<close>: \<open>parser.error\<close> printed the usage and the message \<open>m\<close> and exited with
    status 2. The messages are kept structured:
    \<open>InvalidChoice v\<close> is "invalid choice: v (choose from ...)";
    \<open>TypeErrorMessage d m\<close> is "argument d: m", with \<open>m\<close> the text of an \<open>ArgumentTypeError\<close>;
    \<open>InvalidValue d t v\<close> is "argument d: invalid t value: v", after a \<open>ValueError\<close>;
    \<open>IgnoredExplicitArgument x\<close> is "argument -h/--help: ignored explicit argument x";
    \<open>RequiredArguments ds\<close> is "the following arguments are required: ds";
    \<open>UnrecognizedArguments xs\<close> is "unrecognized arguments: xs".
  \<^item> \<open>HelpExit\<close>: the help action printed the help text and exited with status 0.
  \<^item> \<open>Uncaught e\<close>: an exception that argparse does not turn into an error message.

  The argparse modelled is the one of CPython 3.11.
\<close>

datatype parse_error =
    InvalidChoice string
  | TypeErrorMessage string string
  | InvalidValue string string string
  | IgnoredExplicitArgument string
  | RequiredArguments "string list"
  | UnrecognizedArguments "string list"

datatype exit = Error parse_error | HelpExit | Uncaught exn

section \<open>argparse: classifying the argument strings\<close>

text \<open>
  Every parser here has the prefix character \<open>-\<close> and the two option strings of the help
  action that \<open>ArgumentParser\<close> adds by default. An argument string is an argument (\<open>A\<close>),
  the separator \<open>--\<close> (\<open>Dash\<close>), the help option with an optional separator and explicit
  argument (\<open>O_help\<close>), or an option no parser knows (\<open>O_unknown\<close>).
\<close>

datatype kind = A | Dash | O_help string "string option" "string option" | O_unknown

definition option_strings :: "string list" where
  "option_strings = [''-h'', ''--help'']"

definition startswith :: "string \<Rightarrow> string \<Rightarrow> bool" where
  "startswith s p = (take (length p) s = p)"

definition before_eq :: "string \<Rightarrow> string" where
  "before_eq s = takeWhile (\<lambda>c. c \<noteq> CHR ''='') s"

definition after_eq :: "string \<Rightarrow> string" where
  "after_eq s = tl (dropWhile (\<lambda>c. c \<noteq> CHR ''='') s)"

text \<open>
  \<open>_get_option_tuples\<close>, called on strings of at least two characters that start with \<open>-\<close>.
  It never finds more than one option here, so the "ambiguous option" error cannot arise.
\<close>

definition get_option_tuples :: "string \<Rightarrow> kind list" where
  "get_option_tuples s =
     (if s ! 1 = CHR ''-''
      then concat (map (\<lambda>opt. if startswith opt (before_eq s)
                               then [if CHR ''='' \<in> set s
                                     then O_help opt (Some ''='') (Some (after_eq s))
                                     else O_help opt None None]
                               else []) option_strings)
      else concat (map (\<lambda>opt. if opt = take 2 s then [O_help opt (Some []) (Some (drop 2 s))]
                               else if startswith opt s then [O_help opt None None]
                               else []) option_strings))"

text \<open>The pattern \<open>^-\d+$|^-\d*\.\d+$\<close>; \<open>$\<close> also matches before one final newline.\<close>

definition negative_number :: "string \<Rightarrow> bool" where
  "negative_number s =
     (let t = (if s \<noteq> [] \<and> last s = CHR 0x0A then butlast s else s)
      in case t of
           [] \<Rightarrow> False
         | c # r \<Rightarrow>
             c = CHR ''-'' \<and>
             ((r \<noteq> [] \<and> list_all is_digit r) \<or>
              (case dropWhile is_digit r of
                 [] \<Rightarrow> False
               | d # f \<Rightarrow> d = CHR ''.'' \<and> f \<noteq> [] \<and> list_all is_digit f)))"

definition parse_optional :: "string \<Rightarrow> kind" where
  "parse_optional s =
     (if s = [] then A
      else if hd s \<noteq> CHR ''-'' then A
      else if s \<in> set option_strings then O_help s None None
      else if length s = 1 then A
      else if CHR ''='' \<in> set s \<and> before_eq s \<in> set option_strings
           then O_help (before_eq s) (Some ''='') (Some (after_eq s))
      else (case get_option_tuples s of
              t # _ \<Rightarrow> t
            | [] \<Rightarrow> if negative_number s then A
                    else if CHR '' '' \<in> set s then A
                    else O_unknown))"

fun arg_kinds :: "string list \<Rightarrow> kind list" where
  "arg_kinds [] = []"
| "arg_kinds (s # ss) =
     (if s = ''--'' then Dash # map (\<lambda>_. A) ss else parse_optional s # arg_kinds ss)"

definition is_option :: "kind \<Rightarrow> bool" where
  "is_option k = (case k of A \<Rightarrow> False | Dash \<Rightarrow> False | _ \<Rightarrow> True)"

section \<open>argparse: matching positionals against the pattern\<close>

text \<open>
  The patterns \<open>(-*A-*)\<close>, \<open>(-*A[A-]*)\<close> and \<open>(-*A[-AO]*)\<close>, matched at the start of the
  remaining kinds; the result is the length of the group. No positional of this parser
  follows a \<open>+\<close> positional, so the greedy match is the match of the regular expression.
\<close>

definition dashes :: "kind list \<Rightarrow> nat" where
  "dashes ks = length (takeWhile (\<lambda>k. k = Dash) ks)"

definition match_nargs :: "nargs \<Rightarrow> kind list \<Rightarrow> nat option" where
  "match_nargs n ks =
     (case drop (dashes ks) ks of
        [] \<Rightarrow> None
      | k # r \<Rightarrow>
          if k = A
          then Some (dashes ks + 1 +
                (case n of
                   NARGS_None \<Rightarrow> dashes r
                 | ONE_OR_MORE \<Rightarrow> length (takeWhile (\<lambda>k. k = A \<or> k = Dash) r)
                 | PARSER \<Rightarrow> length r))
          else None)"

fun match_seq :: "nargs list \<Rightarrow> kind list \<Rightarrow> nat list option" where
  "match_seq [] ks = Some []"
| "match_seq (n # ns) ks =
     (case match_nargs n ks of
        None \<Rightarrow> None
      | Some c \<Rightarrow> (case match_seq ns (drop c ks) of
                     None \<Rightarrow> None
                   | Some cs \<Rightarrow> Some (c # cs)))"

text \<open>\<open>_match_arguments_partial\<close>: the longest prefix of the positionals that matches.\<close>

fun match_upto :: "nat \<Rightarrow> nargs list \<Rightarrow> kind list \<Rightarrow> nat list" where
  "match_upto 0 ns ks = []"
| "match_upto (Suc i) ns ks =
     (case match_seq (take (Suc i) ns) ks of
        Some cs \<Rightarrow> cs
      | None \<Rightarrow> match_upto i ns ks)"

definition match_arguments_partial :: "action list \<Rightarrow> kind list \<Rightarrow> nat list" where
  "match_arguments_partial actions ks = match_upto (length actions) (map nargs_of actions) ks"

section \<open>argparse: converting and storing values\<close>

definition type_func :: "(string \<Rightarrow> bool) \<Rightarrow> argtype \<Rightarrow> string \<Rightarrow> conv_error + pyval" where
  "type_func isChecksumAddress t s =
     (case t of
        TStr \<Rightarrow> Inr (VStr s)
      | TAddress \<Rightarrow> map_sum id VStr (check_ethereum_address isChecksumAddress s)
      | TInt \<Rightarrow> map_sum id VInt (py_int s))"

definition type_name :: "argtype \<Rightarrow> string" where
  "type_name t = (case t of TStr \<Rightarrow> ''str''
                  | TAddress \<Rightarrow> ''check_ethereum_address''
                  | TInt \<Rightarrow> ''int'')"

text \<open>
  \<open>_get_value\<close>: an \<open>ArgumentTypeError\<close> of the type function becomes an \<open>ArgumentError\<close> with
  the same message, a \<open>ValueError\<close> becomes "invalid ... value".
\<close>

definition get_value :: "(string \<Rightarrow> bool) \<Rightarrow> string \<Rightarrow> argtype \<Rightarrow> string \<Rightarrow> exit + pyval" where
  "get_value isChecksumAddress d t s =
     (case type_func isChecksumAddress t s of
        Inl (ArgumentTypeError m) \<Rightarrow> Inl (Error (TypeErrorMessage d m))
      | Inl ValueError \<Rightarrow> Inl (Error (InvalidValue d (type_name t) s))
      | Inr v \<Rightarrow> Inr v)"

fun get_value_list :: "(string \<Rightarrow> bool) \<Rightarrow> string \<Rightarrow> argtype \<Rightarrow> string list \<Rightarrow> exit + pyval list" where
  "get_value_list isChecksumAddress d t [] = Inr []"
| "get_value_list isChecksumAddress d t (s # ss) =
     (case get_value isChecksumAddress d t s of
        Inl e \<Rightarrow> Inl e
      | Inr v \<Rightarrow> (case get_value_list isChecksumAddress d t ss of
                    Inl e \<Rightarrow> Inl e
                  | Inr vs \<Rightarrow> Inr (v # vs)))"

text \<open>
  \<open>take_action\<close> for a positional: \<open>_get_values\<close> removes the first \<open>--\<close> (unless the arity is
  \<open>PARSER\<close>), converts one string to a value or all strings to a list, and the store action
  sets the attribute. For the sub-parsers action the first string must be a registered
  name; \<open>sub\<close> is what running that sub-parser on the other strings does.
\<close>

type_synonym subcall = "string \<Rightarrow> string list \<Rightarrow> namespace \<Rightarrow> exit + namespace"

definition take_action ::
  "subcall \<Rightarrow> (string \<Rightarrow> bool) \<Rightarrow> action \<Rightarrow> string list \<Rightarrow> namespace \<Rightarrow> exit + namespace" where
  "take_action sub isChecksumAddress a arg_strings ns =
     (case a of
        Store d t n \<Rightarrow>
          (let strs = (if n = PARSER then arg_strings else remove1 ''--'' arg_strings)
           in if length strs = 1 \<and> n = NARGS_None
              then (case get_value isChecksumAddress d t (hd strs) of
                      Inl e \<Rightarrow> Inl e
                    | Inr v \<Rightarrow> Inr (setattr ns d v))
              else (case get_value_list isChecksumAddress d t strs of
                      Inl e \<Rightarrow> Inl e
                    | Inr vs \<Rightarrow> Inr (setattr ns d (VList vs))))
      | SubParsers \<Rightarrow>
          (case arg_strings of
             [] \<Rightarrow> Inl (Uncaught (Exn IndexError [PStr ''list index out of range'']))
           | parser_name # rest \<Rightarrow>
               if parser_name \<notin> set (map fst subparsers)
               then Inl (Error (InvalidChoice parser_name))
               else sub parser_name rest ns))"

fun take_actions ::
  "subcall \<Rightarrow> (string \<Rightarrow> bool) \<Rightarrow> (action \<times> nat) list \<Rightarrow> string list \<Rightarrow> namespace \<Rightarrow> exit + namespace" where
  "take_actions sub isChecksumAddress [] strs ns = Inr ns"
| "take_actions sub isChecksumAddress ((a, c) # acs) strs ns =
     (case take_action sub isChecksumAddress a (take c strs) ns of
        Inl e \<Rightarrow> Inl e
      | Inr ns' \<Rightarrow> take_actions sub isChecksumAddress acs (drop c strs) ns')"

text \<open>
  \<open>consume_positionals\<close>: the number of strings consumed, the positionals still to be
  parsed, and the namespace.
\<close>

definition consume_positionals ::
  "subcall \<Rightarrow> (string \<Rightarrow> bool) \<Rightarrow> action list \<Rightarrow> (string \<times> kind) list \<Rightarrow> namespace
     \<Rightarrow> exit + (nat \<times> action list \<times> namespace)" where
  "consume_positionals sub isChecksumAddress positionals rest ns =
     (let arg_counts = match_arguments_partial positionals (map snd rest)
      in case take_actions sub isChecksumAddress (zip positionals arg_counts) (map fst rest) ns of
           Inl e \<Rightarrow> Inl e
         | Inr ns' \<Rightarrow> Inr (sum_list arg_counts, drop (length arg_counts) positionals, ns'))"

section \<open>argparse: the help option\<close>

text \<open>
  \<open>consume_optional\<close> on the help action (which takes no argument): without an explicit
  argument the help text is printed. A single-dash \<open>-h\<close> followed directly by more characters
  reads them as further single-dash flags; an explicit argument after \<open>=\<close>, or one given to
  \<open>--help\<close>, is an error.
\<close>

fun consume_help :: "string \<Rightarrow> string option \<Rightarrow> string option \<Rightarrow> exit" where
  "consume_help option_string sep None = HelpExit"
| "consume_help option_string sep (Some []) = Error (IgnoredExplicitArgument [])"
| "consume_help option_string sep (Some (c # cs)) =
     (if option_string ! 1 \<noteq> CHR ''-''
      then (if (sep \<noteq> None \<and> sep \<noteq> Some []) \<or> c = CHR ''-''
            then Error (IgnoredExplicitArgument (c # cs))
            else if [CHR ''-'', c] \<in> set option_strings
            then (case cs of
                    [] \<Rightarrow> consume_help [CHR ''-'', c] None None
                  | d # ds \<Rightarrow> if d = CHR ''=''
                              then consume_help [CHR ''-'', c] (Some ''='') (Some ds)
                              else consume_help [CHR ''-'', c] (Some []) (Some (d # ds)))
            else HelpExit)
      else Error (IgnoredExplicitArgument (c # cs)))"

section \<open>argparse: the parsing loop\<close>

text \<open>
  \<open>_parse_known_args\<close>: positionals and options are consumed alternately while an option
  string is still ahead; afterwards the remaining positionals are consumed and what is
  left over becomes extras. \<open>rest\<close> is the not yet consumed argument strings with their
  kinds. The result is the positionals never seen, the namespace and the extras.
\<close>

definition not_option :: "string \<times> kind \<Rightarrow> bool" where
  "not_option sk = (\<not> is_option (snd sk))"

function parse_loop ::
  "subcall \<Rightarrow> (string \<Rightarrow> bool) \<Rightarrow> action list \<Rightarrow> (string \<times> kind) list \<Rightarrow> namespace \<Rightarrow> string list
     \<Rightarrow> exit + (action list \<times> namespace \<times> string list)" where
  "parse_loop sub isChecksumAddress positionals rest ns extras =
     (if list_all not_option rest
      then (case consume_positionals sub isChecksumAddress positionals rest ns of
              Inl e \<Rightarrow> Inl e
            | Inr (n, positionals', ns') \<Rightarrow> Inr (positionals', ns', extras @ map fst (drop n rest)))
      else (case (if not_option (hd rest)
                  then consume_positionals sub isChecksumAddress positionals rest ns
                  else Inr (0, positionals, ns)) of
              Inl e \<Rightarrow> Inl e
            | Inr (n, positionals', ns') \<Rightarrow>
                if 0 < n
                then parse_loop sub isChecksumAddress positionals' (drop n rest) ns' extras
                else (case dropWhile not_option rest of
                        [] \<Rightarrow> Inr (positionals', ns', extras)
                      | (s, k) # rest' \<Rightarrow>
                          (case k of
                             O_help option_string sep explicit_arg \<Rightarrow>
                               Inl (consume_help option_string sep explicit_arg)
                           | _ \<Rightarrow>
                               parse_loop sub isChecksumAddress positionals' rest' ns'
                                 (extras @ map fst (takeWhile not_option rest) @ [s])))))"
  by pat_completeness auto
termination
proof (relation "measure (\<lambda>(sub, isCS, positionals, rest, ns, extras). length rest)", goal_cases)
  case 1
  show ?case by simp
next
  case (2 sub isCS positionals rest ns extras x n y positionals' ns')
  then have "rest \<noteq> []" by auto
  with 2 show ?case by simp
next
  case (3 sub isCS positionals rest ns extras b x y xa ya x21 x22 xb yb)
  then have "length (x21 # x22) \<le> length rest"
    using length_dropWhile_le [of not_option rest] by simp
  then show ?case by simp
next
  case (4 sub isCS positionals rest ns extras b x y xa ya x21 x22 xb yb)
  then have "length (x21 # x22) \<le> length rest"
    using length_dropWhile_le [of not_option rest] by simp
  then show ?case by simp
next
  case (5 sub isCS positionals rest ns extras b x y xa ya x21 x22 xb yb)
  then have "length (x21 # x22) \<le> length rest"
    using length_dropWhile_le [of not_option rest] by simp
  then show ?case by simp
qed

declare parse_loop.simps [simp del]

text \<open>
  \<open>parse_known_args\<close> of one parser: every positional that was never seen is required
  (the sub-parsers action is not).
\<close>

definition required_actions :: "action list \<Rightarrow> string list" where
  "required_actions unseen = concat (map (\<lambda>a. case a of Store d t n \<Rightarrow> [d] | SubParsers \<Rightarrow> []) unseen)"

definition parse_known_args_of ::
  "subcall \<Rightarrow> (string \<Rightarrow> bool) \<Rightarrow> action list \<Rightarrow> string list \<Rightarrow> namespace
     \<Rightarrow> exit + (namespace \<times> string list)" where
  "parse_known_args_of sub isChecksumAddress positionals arg_strings ns =
     (case parse_loop sub isChecksumAddress positionals (zip arg_strings (arg_kinds arg_strings)) ns [] of
        Inl e \<Rightarrow> Inl e
      | Inr (unseen, ns', extras) \<Rightarrow>
          if required_actions unseen \<noteq> []
          then Inl (Error (RequiredArguments (required_actions unseen)))
          else Inr (ns'\<lparr>unrecognized := []\<rparr>, extras @ unrecognized ns'))"

text \<open>
  \<open>_SubParsersAction.__call__\<close>: the chosen sub-parser parses the remaining strings into a
  fresh namespace (every destination \<open>None\<close>, \<open>func\<close> the handler given to \<open>set_defaults\<close>);
  its attributes are copied over and its extras are left for the top-level parser. A
  sub-parser has no sub-parsers action of its own.
\<close>

definition no_subcall :: subcall where
  "no_subcall parser_name arg_strings ns = Inr ns"

definition run_subparser :: "(string \<Rightarrow> bool) \<Rightarrow> subcall" where
  "run_subparser isChecksumAddress parser_name arg_strings ns =
     (case map_of subparsers parser_name of
        None \<Rightarrow> Inl (Error (InvalidChoice parser_name))
      | Some (positionals, h) \<Rightarrow>
          (case parse_known_args_of no_subcall isChecksumAddress positionals arg_strings
                  \<lparr>attrs = map (\<lambda>a. (dest a, VNone)) positionals, func = Some h, unrecognized = []\<rparr> of
             Inl e \<Rightarrow> Inl e
           | Inr (subnamespace, extras) \<Rightarrow>
               Inr (ns\<lparr>attrs := fold (\<lambda>(k, v). update_attr k v) (attrs subnamespace) (attrs ns),
                       func := func subnamespace,
                       unrecognized := unrecognized ns @ extras\<rparr>)))"

text \<open>The parser returned by \<open>get_prompt_parser\<close>, and its \<open>parse_args\<close>.\<close>

definition parse_known_args :: "(string \<Rightarrow> bool) \<Rightarrow> string list \<Rightarrow> exit + (namespace \<times> string list)" where
  "parse_known_args isChecksumAddress arg_strings =
     parse_known_args_of (run_subparser isChecksumAddress) isChecksumAddress [SubParsers] arg_strings
       \<lparr>attrs = [], func = None, unrecognized = []\<rparr>"

definition parse_args :: "(string \<Rightarrow> bool) \<Rightarrow> string list \<Rightarrow> exit + namespace" where
  "parse_args isChecksumAddress arg_strings =
     (case parse_known_args isChecksumAddress arg_strings of
        Inl e \<Rightarrow> Inl e
      | Inr (ns, argv) \<Rightarrow>
          if argv \<noteq> [] then Inl (Error (UnrecognizedArguments argv)) else Inr ns)"

section \<open>The world outside the parser\<close>

text \<open>
  What a command can change: \<open>console\<close> is the sequence of markup strings whose formatted
  text was printed by \<open>print_formatted_text(HTML(...))\<close>, oldest first (how prompt\_toolkit
  renders it is outside the model); \<open>argparse_output\<close> records what argparse
  printed before it exited (usage and error message, or the help text), as the exit it
  belongs to; \<open>calls\<close> records the methods of the external operator that were called, with
  their arguments.
\<close>

record world =
  console :: "string list"
  argparse_output :: "exit list"
  calls :: "(string \<times> pyval list) list"

text \<open>
  \<open>HTML(markup)\<close> of prompt\_toolkit parses the markup as an XML document and raises the
  parser's exception (\<open>xml.parsers.expat.ExpatError\<close>) when it is not well-formed, for
  instance when the text between the tags holds a bare \<open>&\<close> or \<open><\<close>. The parser belongs to
  the library; it is a parameter of the model: \<open>HTML markup\<close> is \<open>Some e\<close> when the
  constructor raises \<open>e\<close>, and \<open>None\<close> when it returns the formatted text.

  \<open>print_formatted_text(HTML(markup))\<close>: the argument is evaluated first, so nothing is
  printed when the constructor raises.
\<close>

type_synonym html = "string \<Rightarrow> exn option"

definition print_formatted_text :: "html \<Rightarrow> string \<Rightarrow> world \<Rightarrow> (exn + unit) \<times> world" where
  "print_formatted_text HTML markup w =
     (case HTML markup of
        Some x \<Rightarrow> (Inl x, w)
      | None \<Rightarrow> (Inr (), w\<lparr>console := console w @ [markup]\<rparr>))"

text \<open>\<open>e.args[0]\<close>: indexing an empty tuple raises \<open>IndexError\<close>.\<close>

definition args0 :: "exn \<Rightarrow> exn + payload" where
  "args0 e = (case args e of
                [] \<Rightarrow> Inl (Exn IndexError [PStr ''tuple index out of range''])
              | p # _ \<Rightarrow> Inr p)"

section \<open>The decorator \<open>safe_exception\<close>\<close>

text \<open>
  A decorated function takes its argument and the world and either returns a value or
  raises, possibly after printing. The wrapper returns \<open>Some r\<close> when the function returned
  \<open>r\<close>, and \<open>None\<close> (Python's implicit \<open>None\<close>) when an \<open>except\<close> clause handled the failure.
  An exception raised inside an \<open>except\<close> clause, by \<open>e.args[0]\<close> or by \<open>HTML\<close>, leaves the
  wrapper.
\<close>

type_synonym ('a, 'r) pyfun = "'a \<Rightarrow> world \<Rightarrow> (exn + 'r) \<times> world"

text \<open>The body of a clause that prints one message and falls off the end of the wrapper.\<close>

definition emit :: "html \<Rightarrow> string \<Rightarrow> world \<Rightarrow> (exn + 'r option) \<times> world" where
  "emit HTML markup w =
     (case print_formatted_text HTML markup w of
        (Inl x, w') \<Rightarrow> (Inl x, w')
      | (Inr u, w') \<Rightarrow> (Inr None, w'))"

definition emit_with_payload ::
  "html \<Rightarrow> exn \<Rightarrow> string \<Rightarrow> string \<Rightarrow> world \<Rightarrow> (exn + 'r option) \<times> world" where
  "emit_with_payload HTML e before after w =
     (case args0 e of
        Inl ie \<Rightarrow> (Inl ie, w)
      | Inr p \<Rightarrow> emit HTML (before @ format p @ after) w)"

definition except_clauses :: "html \<Rightarrow> exn \<Rightarrow> world \<Rightarrow> (exn + 'r option) \<times> world" where
  "except_clauses HTML e w =
     (case cls e of
        BaseAPIException \<Rightarrow>
          (if args e \<noteq> []
           then emit HTML (''<b><ansired>'' @ format (hd (args e)) @ ''</ansired></b>'') w
           else (Inr None, w))
      | NotEnoughSignatures \<Rightarrow>
          emit_with_payload HTML e
            ''<ansired>Cannot find enough owners to sign. '' '' missing</ansired>'' w
      | SenderRequiredException \<Rightarrow>
          emit HTML ''<ansired>Please load a default sender</ansired>'' w
      | ExistingOwnerException \<Rightarrow>
          emit_with_payload HTML e ''<ansired>Owner '' '' is already an owner of the Safe</ansired>'' w
      | NonExistingOwnerException \<Rightarrow>
          emit_with_payload HTML e ''<ansired>Owner '' '' is not an owner of the Safe</ansired>'' w
      | ThresholdLimitException \<Rightarrow>
          emit HTML ''<ansired>Having less owners than threshold is not allowed</ansired>'' w
      | SameFallbackHandlerException \<Rightarrow>
          emit_with_payload HTML e ''<ansired>Fallback handler '' '' is the current one</ansired>'' w
      | FallbackHandlerNotSupportedException \<Rightarrow>
          emit HTML
            ''<ansired>Fallback handler is not supported for your Safe, you need to <b>update</b> first</ansired>''
            w
      | SameMasterCopyException \<Rightarrow>
          emit_with_payload HTML e ''<ansired>Master Copy '' '' is the current one</ansired>'' w
      | InvalidMasterCopyException \<Rightarrow>
          emit_with_payload HTML e ''<ansired>Master Copy '' '' is not valid</ansired>'' w
      | SafeAlreadyUpdatedException \<Rightarrow>
          emit HTML ''<ansired>Safe is already updated</ansired>'' w
      | NotEnoughEtherToSend \<Rightarrow>
          emit_with_payload HTML e
            ''<ansired>Cannot find enough to send. Current balance is '' ''</ansired>'' w
      | NotEnoughTokenToSend \<Rightarrow>
          emit_with_payload HTML e
            ''<ansired>Cannot find enough to send. Current balance is '' ''</ansired>'' w
      | _ \<Rightarrow> (Inl e, w))"

definition safe_exception ::
  "html \<Rightarrow> ('a, 'r) pyfun \<Rightarrow> 'a \<Rightarrow> world \<Rightarrow> (exn + 'r option) \<times> world" where
  "safe_exception HTML function a w =
     (case function a w of
        (Inr r, w') \<Rightarrow> (Inr (Some r), w')
      | (Inl e, w') \<Rightarrow> except_clauses HTML e w')"


section \<open>The handlers and the external operator\<close>

text \<open>
  The \<open>SafeOperator\<close> is external: calling one of its methods with argument values may print
  and either returns or raises. Each handler reads attributes of the parsed arguments, in
  order (a missing attribute raises \<open>AttributeError\<close>), calls one method of the operator and
  returns \<open>None\<close>.
\<close>

type_synonym operator = "string \<Rightarrow> pyval list \<Rightarrow> string list \<Rightarrow> (exn + unit) \<times> string list"

definition operator_method :: "handler \<Rightarrow> string \<times> string list" where
  "operator_method h =
     (case h of
        show_cli_owners \<Rightarrow> (''show_cli_owners'', [])
      | load_cli_owners \<Rightarrow> (''load_cli_owners'', [''keys''])
      | unload_cli_owners \<Rightarrow> (''unload_cli_owners'', [''addresses''])
      | add_owner \<Rightarrow> (''add_owner'', [''address''])
      | remove_owner \<Rightarrow> (''remove_owner'', [''address''])
      | change_fallback_handler \<Rightarrow> (''change_fallback_handler'', [''address''])
      | change_master_copy \<Rightarrow> (''change_master_copy'', [''address''])
      | change_threshold \<Rightarrow> (''change_threshold'', [''threshold''])
      | send_ether \<Rightarrow> (''send_ether'', [''address'', ''value''])
      | send_erc20 \<Rightarrow> (''send_erc20'', [''address'', ''token_address'', ''value''])
      | send_erc721 \<Rightarrow> (''send_erc721'', [''address'', ''token_address'', ''token_id''])
      | get_threshold \<Rightarrow> (''get_threshold'', [])
      | get_nonce \<Rightarrow> (''get_nonce'', [])
      | get_owners \<Rightarrow> (''get_owners'', [])
      | enable_module \<Rightarrow> (''enable_module'', [''address''])
      | disable_module \<Rightarrow> (''disable_module'', [''address''])
      | update_version \<Rightarrow> (''update_version'', [])
      | get_info \<Rightarrow> (''print_info'', [])
      | get_refresh \<Rightarrow> (''refresh_safe_cli_info'', [])
      | get_balances \<Rightarrow> (''get_balances'', [])
      | get_history \<Rightarrow> (''get_transaction_history'', []))"

fun read_attrs :: "namespace \<Rightarrow> string list \<Rightarrow> exn + pyval list" where
  "read_attrs ns [] = Inr []"
| "read_attrs ns (k # ks) =
     (case getattr ns k of
        None \<Rightarrow> Inl (Exn AttributeError [PStr k])
      | Some v \<Rightarrow> (case read_attrs ns ks of Inl e \<Rightarrow> Inl e | Inr vs \<Rightarrow> Inr (v # vs)))"

definition handler_body :: "operator \<Rightarrow> handler \<Rightarrow> (namespace, unit) pyfun" where
  "handler_body safe_operator h ns w =
     (case read_attrs ns (snd (operator_method h)) of
        Inl e \<Rightarrow> (Inl e, w)
      | Inr vs \<Rightarrow>
          (case safe_operator (fst (operator_method h)) vs (console w) of
             (r, out) \<Rightarrow> (r, w\<lparr>console := out, calls := calls w @ [(fst (operator_method h), vs)]\<rparr>)))"

section \<open>Resolving and dispatching one line\<close>

text \<open>
  \<open>resolve\<close> is \<open>parse_args\<close> together with its effect on the world: before exiting with an
  error or for help, argparse prints; when it returns a namespace it has printed nothing.
\<close>

definition resolve :: "(string \<Rightarrow> bool) \<Rightarrow> string list \<Rightarrow> world \<Rightarrow> (exit + namespace) \<times> world" where
  "resolve isChecksumAddress arg_strings w =
     (case parse_args isChecksumAddress arg_strings of
        Inl (Uncaught e) \<Rightarrow> (Inl (Uncaught e), w)
      | Inl x \<Rightarrow> (Inl x, w\<lparr>argparse_output := argparse_output w @ [x]\<rparr>)
      | Inr ns \<Rightarrow> (Inr ns, w))"

text \<open>
  Modelled from the spec: the dispatch loop that consumes the parser is not part of
  \<open>prompt_parser.py\<close>. Following the specification, it hands the whitespace-delimited tokens
  of one line to the parser and, when parsing succeeds, invokes the wrapped handler of the
  matched command with the parsed arguments (\<open>args.func(args)\<close>); a namespace without
  \<open>func\<close> raises \<open>AttributeError\<close>.
\<close>

datatype outcome = Returned | Exited exit | Raised exn

definition dispatch ::
  "html \<Rightarrow> (string \<Rightarrow> bool) \<Rightarrow> operator \<Rightarrow> string list \<Rightarrow> world \<Rightarrow> outcome \<times> world" where
  "dispatch HTML isChecksumAddress safe_operator arg_strings w =
     (case resolve isChecksumAddress arg_strings w of
        (Inl x, w') \<Rightarrow> (Exited x, w')
      | (Inr ns, w') \<Rightarrow>
          (case func ns of
             None \<Rightarrow> (Raised (Exn AttributeError [PStr ''func'']), w')
           | Some h \<Rightarrow>
               (case safe_exception HTML (handler_body safe_operator h) ns w' of
                  (Inl e, w'') \<Rightarrow> (Raised e, w'')
                | (Inr r, w'') \<Rightarrow> (Returned, w''))))"

section \<open>Lines made of arguments only\<close>

text \<open>
  \<open>is_argument s\<close>: argparse classifies the string as an argument, neither as an option
  string nor as the separator \<open>--\<close>. Every non-empty string that does not start with \<open>-\<close> is
  one, and so is a negative number such as \<open>-5\<close>.
\<close>

definition is_argument :: "string \<Rightarrow> bool" where
  "is_argument s = (s \<noteq> ''--'' \<and> parse_optional s = A)"

text \<open>
  The number of argument strings satisfies the arity of the positionals: exactly one string
  per positional, or at least one when the positional is \<open>nargs='+'\<close>.
\<close>

definition arity_ok :: "action list \<Rightarrow> nat \<Rightarrow> bool" where
  "arity_ok positionals n =
     (if list_ex (\<lambda>a. nargs_of a = ONE_OR_MORE) positionals
      then length positionals \<le> n
      else n = length positionals)"

text \<open>Storing converted strings one by one, as the positionals of a sub-parser do.\<close>

fun store_each :: "(string \<Rightarrow> bool) \<Rightarrow> action list \<Rightarrow> string list \<Rightarrow> namespace \<Rightarrow> exit + namespace" where
  "store_each isChecksumAddress (Store d t n # acts) (s # ss) ns =
     (case get_value isChecksumAddress d t s of
        Inl e \<Rightarrow> Inl e
      | Inr v \<Rightarrow> store_each isChecksumAddress acts ss (setattr ns d v))"
| "store_each isChecksumAddress acts ss ns = Inr ns"


text \<open>
  The specification's "base-10 signed integer", read as an optional sign followed by one or
  more decimal digits.
\<close>

definition base10_signed_integer :: "string \<Rightarrow> bool" where
  "base10_signed_integer s =
     (case s of
        [] \<Rightarrow> False
      | c # cs \<Rightarrow> if c = CHR ''-'' \<or> c = CHR ''+''
                  then cs \<noteq> [] \<and> list_all is_digit cs
                  else list_all is_digit s)"

text \<open>
  The amended reading of an integer token: an optional sign, then one or more groups of
  decimal digits, the groups separated by single underscores, with no more digits in all
  than the interpreter's limit. It is stated on the pieces that \<open>split('_')\<close> gives, not by
  scanning; the value is the base-10 value of the digits.
\<close>

fun split_underscore :: "string \<Rightarrow> string list" where
  "split_underscore [] = [[]]"
| "split_underscore (c # cs) =
     (if c = CHR ''_'' then [] # split_underscore cs
      else (case split_underscore cs of
              g # gs \<Rightarrow> (c # g) # gs
            | [] \<Rightarrow> [[c]]))"

definition digit_groups :: "string \<Rightarrow> bool" where
  "digit_groups s = list_all (\<lambda>g. g \<noteq> [] \<and> list_all is_digit g) (split_underscore s)"

definition decimal_value :: "string \<Rightarrow> nat" where
  "decimal_value ds = foldl (\<lambda>acc c. acc * 10 + digit_val c) 0 ds"

definition unsigned_part :: "string \<Rightarrow> string" where
  "unsigned_part s = (if s \<noteq> [] \<and> (hd s = CHR ''-'' \<or> hd s = CHR ''+'') then tl s else s)"

definition integer_literal :: "string \<Rightarrow> bool" where
  "integer_literal s =
     (digit_groups (unsigned_part s) \<and> length (filter is_digit (unsigned_part s)) \<le> 4300)"

definition integer_literal_value :: "string \<Rightarrow> int" where
  "integer_literal_value s =
     (if s \<noteq> [] \<and> hd s = CHR ''-'' then - int (decimal_value (filter is_digit (unsigned_part s)))
      else int (decimal_value (filter is_digit (unsigned_part s))))"

text \<open>
  A token of a line split at white space, written in ASCII: no character of it is white
  space.
\<close>

definition ascii_token :: "string \<Rightarrow> bool" where
  "ascii_token t = (is_ascii t \<and> list_all (\<lambda>c. \<not> is_space c) t)"




section \<open>Concrete inputs for examples\<close>

text \<open>
  In examples the library predicate is instantiated with one that accepts exactly two
  addresses written in checksum case (test vectors of EIP-55) and nothing else; the
  operator is one whose every method returns silently.
\<close>

definition sample_isChecksumAddress :: "string \<Rightarrow> bool" where
  "sample_isChecksumAddress s =
     (s \<in> set [''0x5aAeb6053F3E94C9b9A09f33669435E7Ef1BeAed'',
                ''0xfB6916095ca1df60bB79Ce92cE3Ea74c37c5d359''])"

text \<open>
  The markup parser of the examples raises \<open>ExpatError\<close> on a markup in which an ampersand is
  followed by a blank, as the XML parser of the library does, and accepts every other markup;
  on the markups of the examples (the messages filled with an address, a number or plain
  words) it answers as the library does.
\<close>

definition ExpatError :: exn where
  "ExpatError = Exn (OtherException ''ExpatError'') [PStr ''not well-formed (invalid token)'']"

fun bare_ampersand :: "string \<Rightarrow> bool" where
  "bare_ampersand (c # d # cs) = ((c = CHR ''&'' \<and> d = CHR '' '') \<or> bare_ampersand (d # cs))"
| "bare_ampersand cs = False"

definition sample_HTML :: html where
  "sample_HTML markup = (if bare_ampersand markup then Some ExpatError else None)"

definition silent_operator :: operator where
  "silent_operator method vs out = (Inr (), out)"

definition empty_world :: world where
  "empty_world = \<lparr>console = [], argparse_output = [], calls = []\<rparr>"

text \<open>A handler whose operator call does nothing but raise the given exception.\<close>

definition raising_stub :: "exn \<Rightarrow> (unit, unit) pyfun" where
  "raising_stub e a w = (Inl e, w)"

section \<open>Unfolding the decorator\<close>

lemmas wrapper_defs =
  safe_exception_def except_clauses_def emit_with_payload_def emit_def args0_def
  print_formatted_text_def

section \<open>The parsing loop on lines without options\<close>

lemma length_arg_kinds [simp]: "length (arg_kinds ss) = length ss"
  by (induction ss) auto

lemma arg_kinds_arguments:
  "\<forall>s\<in>set ss. is_argument s \<Longrightarrow> arg_kinds ss = replicate (length ss) A"
  by (induction ss) (auto simp add: is_argument_def)

lemma not_option_A [simp]: "not_option (s, A)"
  by (simp add: not_option_def is_option_def)

lemma list_all_not_option_zip_A [simp]: "list_all not_option (zip ss (replicate n A))"
  by (auto simp add: list_all_iff dest!: set_zip_rightD)

lemma parse_loop_no_options:
  "list_all not_option rest \<Longrightarrow>
   parse_loop sub isCS positionals rest ns extras =
     (case consume_positionals sub isCS positionals rest ns of
        Inl e \<Rightarrow> Inl e
      | Inr (n, positionals', ns') \<Rightarrow> Inr (positionals', ns', extras @ map fst (drop n rest)))"
  by (subst parse_loop.simps) simp

lemma dashes_A [simp]: "dashes (A # ks) = 0" "dashes [] = 0" "dashes (replicate n A) = 0"
  by (cases n; simp add: dashes_def)+

lemma match_nargs_Nil [simp]: "match_nargs n [] = None"
  by (simp add: match_nargs_def)

lemma match_nargs_one_A [simp]: "match_nargs NARGS_None (A # replicate n A) = Some 1"
  by (simp add: match_nargs_def)

lemma match_nargs_plus_A [simp]: "match_nargs ONE_OR_MORE (A # replicate n A) = Some (Suc n)"
  by (simp add: match_nargs_def takeWhile_replicate)

lemma match_nargs_parser_A [simp]: "match_nargs PARSER (A # ks) = Some (Suc (length ks))"
  by (simp add: match_nargs_def)

lemma match_seq_ones:
  "match_seq (replicate k NARGS_None) (replicate n A) = (if k \<le> n then Some (replicate k 1) else None)"
proof (induction k arbitrary: n)
  case 0
  show ?case by simp
next
  case (Suc k)
  show ?case
  proof (cases n)
    case 0
    then show ?thesis by simp
  next
    case (Suc m)
    then show ?thesis using Suc.IH [of m] by simp
  qed
qed

lemma match_upto_ones:
  "i \<le> k \<Longrightarrow> match_upto i (replicate k NARGS_None) (replicate n A) = replicate (min i n) 1"
proof (induction i)
  case 0
  show ?case by simp
next
  case (Suc i)
  then have "take (Suc i) (replicate k NARGS_None) = replicate (Suc i) NARGS_None"
    by (simp add: min_def)
  with Suc show ?case
    by (simp add: match_seq_ones min_def del: replicate_Suc take_Suc_Cons)
qed

lemma match_arguments_partial_ones:
  assumes "\<forall>a\<in>set ps. \<exists>d t. a = Store d t NARGS_None"
  shows "match_arguments_partial ps (replicate n A) = replicate (min (length ps) n) 1"
proof -
  from assms have "map nargs_of ps = replicate (length ps) NARGS_None"
    by (induction ps) auto
  then show ?thesis
    by (simp add: match_arguments_partial_def match_upto_ones)
qed

lemma take_actions_ones:
  assumes "\<forall>a\<in>set ps. \<exists>d t. a = Store d t NARGS_None" and "''--'' \<notin> set ss"
  shows "take_actions sub isCS (zip ps (replicate (min (length ps) (length ss)) 1)) ss ns
           = store_each isCS ps ss ns"
  using assms
proof (induction ps arbitrary: ss ns)
  case Nil
  show ?case by simp
next
  case (Cons a ps)
  from Cons.prems obtain d t where a: "a = Store d t NARGS_None" by auto
  show ?case
  proof (cases ss)
    case Nil
    then show ?thesis by (simp add: a)
  next
    case (Cons s ss')
    with Cons.prems have "s \<noteq> ''--''" "''--'' \<notin> set ss'" by auto
    with Cons.prems Cons.IH [of ss'] show ?thesis
      by (simp add: a Cons take_action_def split: sum.splits)
  qed
qed

lemma arguments_no_separator: "\<forall>s\<in>set ss. is_argument s \<Longrightarrow> ''--'' \<notin> set ss"
  by (auto simp add: is_argument_def)

lemma unrecognized_setattr [simp]: "unrecognized (setattr ns d v) = unrecognized ns"
  and func_setattr [simp]: "func (setattr ns d v) = func ns"
  by (simp_all add: setattr_def)

lemma store_each_keeps:
  "store_each isCS ps ss ns = Inr ns' \<Longrightarrow> func ns' = func ns \<and> unrecognized ns' = unrecognized ns"
  by (induction isCS ps ss ns rule: store_each.induct) (auto split: sum.splits)

lemma required_actions_stores:
  "\<forall>a\<in>set ps. \<exists>d t n. a = Store d t n \<Longrightarrow> required_actions ps = map dest ps"
  by (induction ps) (auto simp add: required_actions_def)

text \<open>A sub-parser whose positionals all take exactly one string.\<close>

lemma parse_known_args_of_ones:
  assumes ps: "\<forall>a\<in>set ps. \<exists>d t. a = Store d t NARGS_None"
    and ss: "\<forall>s\<in>set ss. is_argument s"
  shows "parse_known_args_of sub isCS ps ss ns =
           (case store_each isCS ps ss ns of
              Inl e \<Rightarrow> Inl e
            | Inr ns' \<Rightarrow>
                if length ss < length ps
                then Inl (Error (RequiredArguments (map dest (drop (length ss) ps))))
                else Inr (ns'\<lparr>unrecognized := []\<rparr>, drop (length ps) ss @ unrecognized ns'))"
proof -
  have req: "required_actions (drop m ps) = map dest (drop m ps)" for m
    using ps by (intro required_actions_stores) (meson in_set_dropD)
  have kinds: "arg_kinds ss = replicate (length ss) A"
    using ss by (rule arg_kinds_arguments)
  have snds: "map snd (zip ss (replicate (length ss) A)) = replicate (length ss) A"
    and fsts: "map fst (zip ss (replicate (length ss) A)) = ss"
    by (simp_all add: map_snd_zip_take map_fst_zip_take)
  have "consume_positionals sub isCS ps (zip ss (replicate (length ss) A)) ns =
          (case store_each isCS ps ss ns of
             Inl e \<Rightarrow> Inl e
           | Inr ns' \<Rightarrow> Inr (min (length ps) (length ss), drop (min (length ps) (length ss)) ps, ns'))"
    unfolding consume_positionals_def snds fsts Let_def match_arguments_partial_ones [OF ps]
      take_actions_ones [OF ps arguments_no_separator [OF ss]]
    by (simp add: sum_list_replicate split: sum.splits)
  then have "parse_loop sub isCS ps (zip ss (arg_kinds ss)) ns [] =
          (case store_each isCS ps ss ns of
             Inl e \<Rightarrow> Inl e
           | Inr ns' \<Rightarrow> Inr (drop (min (length ps) (length ss)) ps, ns',
                             drop (min (length ps) (length ss)) ss))"
    unfolding kinds
    by (simp add: parse_loop_no_options fsts drop_map [symmetric] split: sum.splits)
  then show ?thesis
    by (auto simp add: parse_known_args_of_def req min_def split: sum.splits)
qed

text \<open>A sub-parser with a single \<open>nargs='+'\<close> positional.\<close>

lemma parse_known_args_of_plus:
  assumes ss: "\<forall>s\<in>set ss. is_argument s"
  shows "parse_known_args_of sub isCS [Store d t ONE_OR_MORE] ss ns =
           (if ss = [] then Inl (Error (RequiredArguments [d]))
            else case get_value_list isCS d t ss of
                   Inl e \<Rightarrow> Inl e
                 | Inr vs \<Rightarrow> Inr ((setattr ns d (VList vs))\<lparr>unrecognized := []\<rparr>, unrecognized ns))"
proof (cases ss)
  case Nil
  then show ?thesis
    by (simp add: parse_known_args_of_def parse_loop_no_options consume_positionals_def
          match_arguments_partial_def required_actions_def)
next
  case (Cons s ss')
  with ss have "''--'' \<notin> set (s # ss')" by (auto simp add: is_argument_def)
  then have rm: "remove1 ''--'' (s # ss') = s # ss'"
    by (simp add: remove1_idem)
  have kinds: "arg_kinds (s # ss') = A # replicate (length ss') A"
    using ss Cons arg_kinds_arguments [of "s # ss'"] by simp
  show ?thesis
    unfolding Cons parse_known_args_of_def kinds
    by (simp add: parse_loop_no_options consume_positionals_def match_arguments_partial_def
          take_action_def rm required_actions_def del: remove1.simps arg_kinds.simps split: sum.splits)
qed

section \<open>The top-level parser\<close>

lemma consume_positionals_Nil [simp]:
  "consume_positionals sub isCS [] rest ns = Inr (0, [], ns)"
  by (simp add: consume_positionals_def match_arguments_partial_def)

lemma consume_positionals_subparsers:
  "length ks = length ss \<Longrightarrow>
   consume_positionals sub isCS [SubParsers] ((c, A) # zip ss ks) ns =
     (case take_action sub isCS SubParsers (c # ss) ns of
        Inl e \<Rightarrow> Inl e
      | Inr ns' \<Rightarrow> Inr (Suc (length ss), [], ns'))"
  by (simp add: consume_positionals_def match_arguments_partial_def split: sum.splits)

lemma parse_loop_subparsers:
  assumes "length ks = length ss"
  shows "parse_loop sub isCS [SubParsers] ((c, A) # zip ss ks) ns [] =
     (case take_action sub isCS SubParsers (c # ss) ns of
        Inl e \<Rightarrow> Inl e
      | Inr ns' \<Rightarrow> Inr ([], ns', []))"
proof (cases "list_all not_option ((c, A) # zip ss ks)")
  case True
  then show ?thesis
    using assms
    by (simp add: parse_loop_no_options consume_positionals_subparsers split: sum.splits)
next
  case False
  have "parse_loop sub isCS [] [] ns' [] = Inr ([], ns', [])" for ns'
    by (simp add: parse_loop_no_options)
  with False show ?thesis
    using assms
    by (subst parse_loop.simps)
       (simp add: consume_positionals_subparsers split: sum.splits)
qed

text \<open>
  When the first string of the line is an argument, it selects the sub-parser, which
  receives all the other strings.
\<close>

lemma parse_args_command:
  assumes "is_argument c"
  shows "parse_args isCS (c # ss) =
           (if c \<notin> set (map fst subparsers) then Inl (Error (InvalidChoice c))
            else case run_subparser isCS c ss \<lparr>attrs = [], func = None, unrecognized = []\<rparr> of
                   Inl e \<Rightarrow> Inl e
                 | Inr ns' \<Rightarrow>
                     if unrecognized ns' \<noteq> []
                     then Inl (Error (UnrecognizedArguments (unrecognized ns')))
                     else Inr (ns'\<lparr>unrecognized := []\<rparr>))"
proof -
  from assms have kinds: "arg_kinds (c # ss) = A # arg_kinds ss"
    by (simp add: is_argument_def)
  show ?thesis
    unfolding parse_args_def parse_known_args_def parse_known_args_of_def kinds
    by (simp add: parse_loop_subparsers take_action_def required_actions_def split: sum.splits)
qed

section \<open>The registered commands\<close>

lemma registry_shapes:
  assumes "map_of subparsers c = Some (ps, h)"
  shows "ps = []
       \<or> (\<exists>d t. ps = [Store d t ONE_OR_MORE])
       \<or> (\<exists>d. ps = [Store d TInt NARGS_None])
       \<or> (\<exists>d. ps = [Store d TAddress NARGS_None])
       \<or> (\<exists>d1 d2. ps = [Store d1 TAddress NARGS_None, Store d2 TInt NARGS_None])
       \<or> (\<exists>d1 d2 d3. ps = [Store d1 TAddress NARGS_None, Store d2 TAddress NARGS_None,
                                Store d3 TInt NARGS_None])"
  using assms by (auto simp add: subparsers_def split: if_splits)

lemma registered_is_argument:
  assumes "map_of subparsers c = Some (ps, h)"
  shows "is_argument c"
  using assms
  by (auto simp add: subparsers_def is_argument_def parse_optional_def split: if_splits)

lemma registered_in_names:
  "map_of subparsers c = Some (ps, h) \<Longrightarrow> c \<in> set (map fst subparsers)"
  by (metis map_of_eq_None_iff option.distinct(1) set_map)

lemma get_value_error: "get_value isCS d t s = Inl e \<Longrightarrow> \<exists>m. e = Error m"
  by (auto simp add: get_value_def split: sum.splits conv_error.splits)

lemma get_value_list_error: "get_value_list isCS d t ss = Inl e \<Longrightarrow> \<exists>m. e = Error m"
  by (induction ss arbitrary: e) (auto split: sum.splits dest: get_value_error)

lemma store_each_error: "store_each isCS ps ss ns = Inl e \<Longrightarrow> \<exists>m. e = Error m"
  by (induction isCS ps ss ns rule: store_each.induct) (auto split: sum.splits dest: get_value_error)

lemma run_subparser_registered:
  "map_of subparsers c = Some (ps, h) \<Longrightarrow>
   run_subparser isCS c ss ns =
     (case parse_known_args_of no_subcall isCS ps ss
             \<lparr>attrs = map (\<lambda>a. (dest a, VNone)) ps, func = Some h, unrecognized = []\<rparr> of
        Inl e \<Rightarrow> Inl e
      | Inr (subnamespace, extras) \<Rightarrow>
          Inr (ns\<lparr>attrs := fold (\<lambda>(k, v). update_attr k v) (attrs subnamespace) (attrs ns),
                  func := func subnamespace,
                  unrecognized := unrecognized ns @ extras\<rparr>))"
  by (simp add: run_subparser_def)

lemma parse_args_registered:
  assumes reg: "map_of subparsers c = Some (ps, h)"
  shows "parse_args isCS (c # ss) =
           (case parse_known_args_of no_subcall isCS ps ss
                   \<lparr>attrs = map (\<lambda>a. (dest a, VNone)) ps, func = Some h, unrecognized = []\<rparr> of
              Inl e \<Rightarrow> Inl e
            | Inr (subnamespace, extras) \<Rightarrow>
                if extras \<noteq> [] then Inl (Error (UnrecognizedArguments extras))
                else Inr \<lparr>attrs = fold (\<lambda>(k, v). update_attr k v) (attrs subnamespace) [],
                          func = func subnamespace, unrecognized = []\<rparr>)"
  unfolding parse_args_command [OF registered_is_argument [OF reg]]
    run_subparser_registered [OF reg]
  using registered_in_names [OF reg]
  by (simp split: sum.splits prod.splits)

lemma parse_args_registered_ones:
  assumes reg: "map_of subparsers c = Some (ps, h)"
    and ones: "\<forall>a\<in>set ps. \<exists>d t. a = Store d t NARGS_None"
    and ss: "\<forall>s\<in>set ss. is_argument s"
  shows "parse_args isCS (c # ss) =
           (case store_each isCS ps ss
                   \<lparr>attrs = map (\<lambda>a. (dest a, VNone)) ps, func = Some h, unrecognized = []\<rparr> of
              Inl e \<Rightarrow> Inl e
            | Inr ns' \<Rightarrow>
                if length ss < length ps
                then Inl (Error (RequiredArguments (map dest (drop (length ss) ps))))
                else if length ps < length ss
                then Inl (Error (UnrecognizedArguments (drop (length ps) ss)))
                else Inr \<lparr>attrs = fold (\<lambda>(k, v). update_attr k v) (attrs ns') [],
                          func = Some h, unrecognized = []\<rparr>)"
proof (cases "store_each isCS ps ss
                \<lparr>attrs = map (\<lambda>a. (dest a, VNone)) ps, func = Some h, unrecognized = []\<rparr>")
  case (Inl e)
  then show ?thesis
    unfolding parse_args_registered [OF reg] parse_known_args_of_ones [OF ones ss]
    by simp
next
  case (Inr ns')
  from store_each_keeps [OF Inr] have "func ns' = Some h" "unrecognized ns' = []"
    by simp_all
  with Inr show ?thesis
    unfolding parse_args_registered [OF reg] parse_known_args_of_ones [OF ones ss]
    by simp
qed

lemma parse_args_registered_plus:
  assumes reg: "map_of subparsers c = Some ([Store d t ONE_OR_MORE], h)"
    and ss: "\<forall>s\<in>set ss. is_argument s"
  shows "parse_args isCS (c # ss) =
           (if ss = [] then Inl (Error (RequiredArguments [d]))
            else case get_value_list isCS d t ss of
                   Inl e \<Rightarrow> Inl e
                 | Inr vs \<Rightarrow> Inr \<lparr>attrs = [(d, VList vs)], func = Some h, unrecognized = []\<rparr>)"
  unfolding parse_args_registered [OF reg] parse_known_args_of_plus [OF ss]
  by (simp add: setattr_def split: sum.splits)

lemma dispatch_error:
  "parse_args isCS ts = Inl (Error m) \<Longrightarrow>
   dispatch HTML isCS oper ts w = (Exited (Error m), w\<lparr>argparse_output := argparse_output w @ [Error m]\<rparr>)"
  by (simp add: dispatch_def resolve_def)

lemma dispatch_help:
  "parse_args isCS ts = Inl HelpExit \<Longrightarrow>
   dispatch HTML isCS oper ts w = (Exited HelpExit, w\<lparr>argparse_output := argparse_output w @ [HelpExit]\<rparr>)"
  by (simp add: dispatch_def resolve_def)

lemma arity_failure:
  assumes reg: "map_of subparsers c = Some (ps, h)"
    and ss: "\<forall>s\<in>set ss. is_argument s"
    and bad: "\<not> arity_ok ps (length ss)"
  shows "\<exists>m. parse_args isCS (c # ss) = Inl (Error m)"
proof -
  consider (plus) d t where "ps = [Store d t ONE_OR_MORE]"
    | (ones) "\<forall>a\<in>set ps. \<exists>d t. a = Store d t NARGS_None"
    using registry_shapes [OF reg] by auto
  then show ?thesis
  proof cases
    case plus
    with bad have "ss = []" by (cases ss) (simp_all add: arity_ok_def)
    with plus reg ss show ?thesis by (simp add: parse_args_registered_plus)
  next
    case ones
    then have "\<not> list_ex (\<lambda>a. nargs_of a = ONE_OR_MORE) ps"
      by (auto simp add: list_ex_iff)
    with bad have ne: "length ss \<noteq> length ps" by (simp add: arity_ok_def)
    show ?thesis
    proof (cases "store_each isCS ps ss
                    \<lparr>attrs = map (\<lambda>a. (dest a, VNone)) ps, func = Some h, unrecognized = []\<rparr>")
      case (Inl e)
      then show ?thesis
        using store_each_error [OF Inl] by (simp add: parse_args_registered_ones [OF reg ones ss])
    next
      case (Inr ns')
      with ne show ?thesis
        by (simp add: parse_args_registered_ones [OF reg ones ss])
    qed
  qed
qed

lemma parse_known_args_of_help_first:
  "parse_known_args_of sub isCS ps (''-h'' # ss) ns = Inl HelpExit"
proof -
  have kinds: "arg_kinds (''-h'' # ss) = O_help ''-h'' None None # arg_kinds ss"
    by (simp add: parse_optional_def option_strings_def)
  have "parse_loop sub isCS ps ((''-h'', O_help ''-h'' None None) # zip ss (arg_kinds ss)) ns []
          = Inl HelpExit"
    by (subst parse_loop.simps) (simp add: not_option_def is_option_def)
  then show ?thesis
    unfolding parse_known_args_of_def kinds by simp
qed

lemma parse_args_help_after_command:
  "map_of subparsers c = Some (ps, h) \<Longrightarrow> parse_args isCS (c # ''-h'' # ss) = Inl HelpExit"
  by (simp add: parse_args_registered parse_known_args_of_help_first)

lemma parse_args_help_first: "parse_args isCS (''-h'' # ss) = Inl HelpExit"
  by (simp add: parse_args_def parse_known_args_def parse_known_args_of_help_first)

lemma is_argument_no_dash: "s \<noteq> [] \<Longrightarrow> hd s \<noteq> CHR ''-'' \<Longrightarrow> is_argument s"
  by (cases s) (auto simp add: is_argument_def parse_optional_def)

lemma registered_change_threshold:
  "map_of subparsers ''change_threshold'' = Some ([Store ''threshold'' TInt NARGS_None], change_threshold)"
  by (simp add: subparsers_def)

lemma registered_add_owner:
  "map_of subparsers ''add_owner'' = Some ([Store ''address'' TAddress NARGS_None], add_owner)"
  by (simp add: subparsers_def)

lemma registered_send_ether:
  "map_of subparsers ''send_ether'' =
     Some ([Store ''address'' TAddress NARGS_None, Store ''value'' TInt NARGS_None], send_ether)"
  by (simp add: subparsers_def)

lemma registered_send_erc20:
  "map_of subparsers ''send_erc20'' =
     Some ([Store ''address'' TAddress NARGS_None, Store ''token_address'' TAddress NARGS_None,
            Store ''value'' TInt NARGS_None], send_erc20)"
  by (simp add: subparsers_def)

lemma registered_send_erc721:
  "map_of subparsers ''send_erc721'' =
     Some ([Store ''address'' TAddress NARGS_None, Store ''token_address'' TAddress NARGS_None,
            Store ''token_id'' TInt NARGS_None], send_erc721)"
  by (simp add: subparsers_def)

lemmas int_defs = py_int_def strip_def is_space_def int_unsigned_def is_digit_def digit_val_def
  transform_decimal_and_space_to_ascii_def is_ascii_def int_max_str_digits_def Let_def

lemmas value_defs = get_value_def type_func_def type_name_def check_ethereum_address_def setattr_def

section \<open>Every positional consumes at least one argument string\<close>

lemma match_nargs_bounds:
  assumes "match_nargs g ks = Some c"
  shows "1 \<le> c \<and> c \<le> length ks"
proof -
  from assms obtain k r where dr: "drop (dashes ks) ks = k # r"
    by (auto simp add: match_nargs_def split: list.splits)
  then have len: "length ks = dashes ks + 1 + length r"
    by (metis Suc_eq_plus1 add.assoc add.commute append_take_drop_id dashes_def length_Cons
        length_append length_takeWhile_le length_take min.absorb2 plus_1_eq_Suc)
  have "dashes r \<le> length r"
    by (simp add: dashes_def length_takeWhile_le)
  moreover have "length (takeWhile (\<lambda>k. k = A \<or> k = Dash) r) \<le> length r"
    by (rule length_takeWhile_le)
  ultimately show ?thesis
    using assms dr len
    by (cases g) (auto simp add: match_nargs_def split: if_splits)
qed

lemma match_seq_bounds:
  "match_seq gs ks = Some cs \<Longrightarrow> length gs \<le> sum_list cs \<and> sum_list cs \<le> length ks \<and> length cs = length gs"
proof (induction gs arbitrary: ks cs)
  case Nil
  then show ?case by simp
next
  case (Cons g gs)
  from Cons.prems obtain c cs' where c: "match_nargs g ks = Some c"
    and cs': "match_seq gs (drop c ks) = Some cs'" and cs: "cs = c # cs'"
    by (auto split: option.splits)
  from match_nargs_bounds [OF c] Cons.IH [OF cs'] show ?case
    by (auto simp add: cs)
qed

lemma match_upto_bounds:
  "length (match_upto i gs ks) \<le> sum_list (match_upto i gs ks)
   \<and> sum_list (match_upto i gs ks) \<le> length ks
   \<and> length (match_upto i gs ks) \<le> length gs"
proof (induction i)
  case 0
  show ?case by simp
next
  case (Suc i)
  show ?case
  proof (cases "match_seq (take (Suc i) gs) ks")
    case None
    with Suc show ?thesis by simp
  next
    case (Some cs)
    from match_seq_bounds [OF Some] Some show ?thesis by simp
  qed
qed

lemma consume_positionals_bounds:
  assumes "consume_positionals sub isCS ps rest ns = Inr (n, ps', ns')"
  shows "\<exists>m. ps' = drop m ps \<and> m \<le> n \<and> n \<le> length rest \<and> m \<le> length ps"
proof -
  let ?cs = "match_arguments_partial ps (map snd rest)"
  from assms have "n = sum_list ?cs" "ps' = drop (length ?cs) ps"
    by (auto simp add: consume_positionals_def Let_def split: sum.splits)
  moreover have "length ?cs \<le> sum_list ?cs \<and> sum_list ?cs \<le> length rest \<and> length ?cs \<le> length ps"
    using match_upto_bounds [of "length ps" "map nargs_of ps" "map snd rest"]
    by (simp add: match_arguments_partial_def)
  ultimately show ?thesis by blast
qed

lemma parse_loop_unseen:
  "parse_loop sub isCS ps rest ns extras = Inr (unseen, ns', extras') \<Longrightarrow>
   set unseen \<subseteq> set ps \<and> length ps \<le> length unseen + length rest"
proof (induction sub isCS ps rest ns extras rule: parse_loop.induct)
  case (1 sub isCS ps rest ns extras)
  show ?case
  proof (cases "list_all not_option rest")
    case True
    with "1.prems" obtain n where "consume_positionals sub isCS ps rest ns = Inr (n, unseen, ns')"
      by (auto simp add: parse_loop_no_options split: sum.splits)
    from consume_positionals_bounds [OF this] show ?thesis
      by (auto dest: in_set_dropD)
  next
    case False
    let ?first = "if not_option (hd rest) then consume_positionals sub isCS ps rest ns
                  else Inr (0, ps, ns)"
    from "1.prems" False obtain n ps1 ns1 where first: "?first = Inr (n, ps1, ns1)"
      by (subst (asm) parse_loop.simps) (auto split: sum.splits)
    then have bounds: "\<exists>m. ps1 = drop m ps \<and> m \<le> n \<and> n \<le> length rest \<and> m \<le> length ps"
      using consume_positionals_bounds [of sub isCS ps rest ns n ps1 ns1]
      by (auto split: if_splits)
    show ?thesis
    proof (cases "0 < n")
      case True
      with "1.prems" False first
      have "parse_loop sub isCS ps1 (drop n rest) ns1 extras = Inr (unseen, ns', extras')"
        by (subst (asm) parse_loop.simps) simp
      from "1.IH"(1) [OF False first refl refl True this] bounds show ?thesis
        by (auto dest: in_set_dropD)
    next
      case n0: False
      with bounds have ps1: "ps1 = ps" by auto
      show ?thesis
      proof (cases "dropWhile not_option rest")
        case Nil
        with "1.prems" False first n0 have "unseen = ps1"
          by (subst (asm) parse_loop.simps) simp
        with ps1 show ?thesis by simp
      next
        case (Cons sk rest')
        obtain s k where sk: "sk = (s, k)" by (cases sk)
        have shorter: "length rest' < length rest"
          using length_dropWhile_le [of not_option rest] Cons by simp
        from "1.prems" False first n0 Cons sk
        have k: "\<not> (\<exists>os sep ex. k = O_help os sep ex)"
          by (subst (asm) parse_loop.simps) (auto split: kind.splits)
        with "1.prems" False first n0 Cons sk
        have rec: "parse_loop sub isCS ps1 rest' ns1
                     (extras @ map fst (takeWhile not_option rest) @ [s]) = Inr (unseen, ns', extras')"
          by (subst (asm) parse_loop.simps) (cases k; simp)
        have "set unseen \<subseteq> set ps1 \<and> length ps1 \<le> length unseen + length rest'"
        proof (cases k)
          case A
          from "1.IH"(2) [OF False first refl refl n0 Cons sk [symmetric] A] rec show ?thesis
            by simp
        next
          case Dash
          from "1.IH"(3) [OF False first refl refl n0 Cons sk [symmetric] Dash] rec show ?thesis
            by simp
        next
          case (O_help os sep ex)
          with k show ?thesis by simp
        next
          case O_unknown
          from "1.IH"(4) [OF False first refl refl n0 Cons sk [symmetric] O_unknown] rec show ?thesis
            by simp
        qed
        with ps1 shorter show ?thesis by auto
      qed
    qed
  qed
qed

lemma consume_help_exit: "consume_help os sep ex = HelpExit \<or> (\<exists>m. consume_help os sep ex = Error m)"
  by (induction os sep ex rule: consume_help.induct) (auto split: list.splits)

lemma take_action_store_error:
  "take_action sub isCS (Store d t n) strs ns = Inl x \<Longrightarrow> \<exists>m. x = Error m"
  by (auto simp add: take_action_def Let_def split: if_splits sum.splits
        dest: get_value_error get_value_list_error)

lemma take_actions_stores_error:
  "\<forall>a\<in>set (map fst acs). a \<noteq> SubParsers \<Longrightarrow>
   take_actions sub isCS acs strs ns = Inl x \<Longrightarrow> \<exists>m. x = Error m"
proof (induction acs arbitrary: strs ns)
  case Nil
  then show ?case by simp
next
  case (Cons ac acs)
  obtain a c where ac: "ac = (a, c)" by (cases ac)
  with Cons.prems obtain d t n where a: "a = Store d t n" by (cases a) auto
  show ?case
  proof (cases "take_action sub isCS a (take c strs) ns")
    case (Inl e)
    with Cons.prems ac have "x = e" by simp
    with Inl a take_action_store_error show ?thesis by blast
  next
    case (Inr ns1)
    with Cons.prems ac have "take_actions sub isCS acs (drop c strs) ns1 = Inl x" by simp
    with Cons.IH Cons.prems show ?thesis by auto
  qed
qed

lemma consume_positionals_stores_error:
  assumes "\<forall>a\<in>set ps. a \<noteq> SubParsers"
    and "consume_positionals sub isCS ps rest ns = Inl x"
  shows "\<exists>m. x = Error m"
proof -
  let ?acs = "zip ps (match_arguments_partial ps (map snd rest))"
  from assms(2) have "take_actions sub isCS ?acs (map fst rest) ns = Inl x"
    by (auto simp add: consume_positionals_def Let_def split: sum.splits)
  moreover from assms(1) have "\<forall>a\<in>set (map fst ?acs). a \<noteq> SubParsers"
    by (auto dest: set_zip_leftD)
  ultimately show ?thesis by (rule take_actions_stores_error [rotated])
qed

lemma parse_loop_stores_exit:
  "\<forall>a\<in>set ps. a \<noteq> SubParsers \<Longrightarrow>
   parse_loop sub isCS ps rest ns extras = Inl x \<Longrightarrow> x = HelpExit \<or> (\<exists>m. x = Error m)"
proof (induction sub isCS ps rest ns extras rule: parse_loop.induct)
  case (1 sub isCS ps rest ns extras)
  show ?case
  proof (cases "list_all not_option rest")
    case True
    with "1.prems"(2) have "consume_positionals sub isCS ps rest ns = Inl x"
      by (auto simp add: parse_loop_no_options split: sum.splits)
    from consume_positionals_stores_error [OF "1.prems"(1) this] show ?thesis by simp
  next
    case False
    let ?first = "if not_option (hd rest) then consume_positionals sub isCS ps rest ns
                  else Inr (0, ps, ns)"
    show ?thesis
    proof (cases ?first)
      case (Inl e)
      with "1.prems"(2) False have "x = e"
        by (subst (asm) parse_loop.simps) simp
      moreover from Inl have "consume_positionals sub isCS ps rest ns = Inl e"
        by (simp split: if_splits)
      ultimately show ?thesis
        using consume_positionals_stores_error [OF "1.prems"(1)] by blast
    next
      case (Inr r)
      obtain n ps1 ns1 where r: "r = (n, ps1, ns1)" by (cases r)
      with Inr have first: "?first = Inr (n, ps1, ns1)" by simp
      then have "set ps1 \<subseteq> set ps"
        using consume_positionals_bounds [of sub isCS ps rest ns n ps1 ns1]
        by (auto split: if_splits dest: in_set_dropD)
      with "1.prems"(1) have stores: "\<forall>a\<in>set ps1. a \<noteq> SubParsers" by auto
      show ?thesis
      proof (cases "0 < n")
        case True
        with "1.prems"(2) False first
        have "parse_loop sub isCS ps1 (drop n rest) ns1 extras = Inl x"
          by (subst (asm) parse_loop.simps) simp
        from "1.IH"(1) [OF False first refl refl True stores this] show ?thesis .
      next
        case n0: False
        show ?thesis
        proof (cases "dropWhile not_option rest")
          case Nil
          with "1.prems"(2) False first n0 show ?thesis
            by (subst (asm) parse_loop.simps) simp
        next
          case (Cons sk rest')
          obtain s k where sk: "sk = (s, k)" by (cases sk)
          show ?thesis
          proof (cases k)
            case A
            with "1.prems"(2) False first n0 Cons sk
            have "parse_loop sub isCS ps1 rest' ns1
                    (extras @ map fst (takeWhile not_option rest) @ [s]) = Inl x"
              by (subst (asm) parse_loop.simps) simp
            from "1.IH"(2) [OF False first refl refl n0 Cons sk [symmetric] A stores this]
            show ?thesis .
          next
            case Dash
            with "1.prems"(2) False first n0 Cons sk
            have "parse_loop sub isCS ps1 rest' ns1
                    (extras @ map fst (takeWhile not_option rest) @ [s]) = Inl x"
              by (subst (asm) parse_loop.simps) simp
            from "1.IH"(3) [OF False first refl refl n0 Cons sk [symmetric] Dash stores this]
            show ?thesis .
          next
            case (O_help os sep ex)
            with "1.prems"(2) False first n0 Cons sk
            have "x = consume_help os sep ex"
              by (subst (asm) parse_loop.simps) simp
            with consume_help_exit [of os sep ex] show ?thesis by auto
          next
            case O_unknown
            with "1.prems"(2) False first n0 Cons sk
            have "parse_loop sub isCS ps1 rest' ns1
                    (extras @ map fst (takeWhile not_option rest) @ [s]) = Inl x"
              by (subst (asm) parse_loop.simps) simp
            from "1.IH"(4) [OF False first refl refl n0 Cons sk [symmetric] O_unknown stores this]
            show ?thesis .
          qed
        qed
      qed
    qed
  qed
qed

lemma registry_stores:
  assumes "map_of subparsers c = Some (ps, h)"
  shows "\<forall>a\<in>set ps. \<exists>d t n. a = Store d t n"
  using registry_shapes [OF assms] by auto

lemma too_few_never_parses:
  assumes reg: "map_of subparsers c = Some (ps, h)" and few: "length ss < length ps"
  shows "\<exists>x. (x = HelpExit \<or> (\<exists>m. x = Error m)) \<and> parse_args isCS (c # ss) = Inl x"
proof -
  let ?ns0 = "\<lparr>attrs = map (\<lambda>a. (dest a, VNone)) ps, func = Some h, unrecognized = []\<rparr>"
  from registry_stores [OF reg] have stores: "\<forall>a\<in>set ps. a \<noteq> SubParsers" by auto
  show ?thesis
  proof (cases "parse_loop no_subcall isCS ps (zip ss (arg_kinds ss)) ?ns0 []")
    case (Inl x)
    from parse_loop_stores_exit [OF stores Inl] Inl show ?thesis
      by (auto simp add: parse_args_registered [OF reg] parse_known_args_of_def)
  next
    case (Inr r)
    obtain unseen ns' extras where r: "r = (unseen, ns', extras)" by (cases r)
    from parse_loop_unseen [OF Inr [unfolded r]] few
    have "unseen \<noteq> []" and "set unseen \<subseteq> set ps" by auto
    with registry_stores [OF reg] have "required_actions unseen \<noteq> []"
      by (subst required_actions_stores) auto
    with Inr r show ?thesis
      by (simp add: parse_args_registered [OF reg] parse_known_args_of_def)
  qed
qed

lemma dispatch_exit:
  "parse_args isCS ts = Inl x \<Longrightarrow> x = HelpExit \<or> (\<exists>m. x = Error m) \<Longrightarrow>
   dispatch HTML isCS oper ts w = (Exited x, w\<lparr>argparse_output := argparse_output w @ [x]\<rparr>)"
  by (auto simp add: dispatch_def resolve_def)

lemma get_value_address:
  "get_value isCS d TAddress s =
     (if isCS s then Inr (VStr s)
      else Inl (Error (TypeErrorMessage d (s @ '' is not a valid checksummed ethereum address''))))"
  by (simp add: get_value_def type_func_def check_ethereum_address_def)





section \<open>Integer slots\<close>

lemma digit_not_space: "is_digit c \<Longrightarrow> \<not> is_space c"
  by (auto simp add: is_digit_def is_space_def)

lemma digit_not_sign: "is_digit c \<Longrightarrow> c \<noteq> CHR ''-'' \<and> c \<noteq> CHR ''+'' \<and> c \<noteq> CHR ''='' \<and> c \<noteq> CHR ''h''
    \<and> c \<noteq> CHR 0x0A \<and> c \<noteq> CHR '' ''"
  by (auto simp add: is_digit_def)

lemma digit_not_underscore: "is_digit c \<Longrightarrow> c \<noteq> CHR ''_''"
  by (auto simp add: is_digit_def)

lemma digit_ascii: "is_digit c \<Longrightarrow> (of_char c :: nat) < 128"
  by (auto simp add: is_digit_def)

text \<open>The scanner accepts exactly the digit groups, and computes their base-10 value.\<close>

lemma split_underscore_not_Nil [simp]: "split_underscore s \<noteq> []"
  by (induction s) (auto split: list.splits)

lemma split_underscore_Cons:
  "c \<noteq> CHR ''_'' \<Longrightarrow>
   split_underscore (c # cs) = (c # hd (split_underscore cs)) # tl (split_underscore cs)"
  by (cases "split_underscore cs") simp_all

lemma split_underscore_digits: "list_all is_digit ds \<Longrightarrow> split_underscore ds = [ds]"
  by (induction ds) (auto simp add: digit_not_underscore)

lemma digit_groups_Nil [simp]: "\<not> digit_groups []"
  by (simp add: digit_groups_def)

lemma digit_groups_nondigit: "\<not> is_digit c \<Longrightarrow> \<not> digit_groups (c # cs)"
  by (cases "split_underscore cs") (auto simp add: digit_groups_def)

lemma digit_groups_digit:
  assumes "is_digit d"
  shows "digit_groups (d # cs) =
           (cs = [] \<or> (hd cs = CHR ''_'' \<and> digit_groups (tl cs))
                    \<or> (hd cs \<noteq> CHR ''_'' \<and> digit_groups cs))"
proof (cases cs)
  case Nil
  with assms show ?thesis by (simp add: digit_groups_def digit_not_underscore)
next
  case (Cons c cs')
  show ?thesis
  proof (cases "split_underscore cs'")
    case Nil
    then show ?thesis by simp
  next
    case (Cons g gs)
    with assms \<open>cs = c # cs'\<close> show ?thesis
      by (auto simp add: digit_groups_def digit_not_underscore split_underscore_Cons)
  qed
qed

lemma int_digits_accepts:
  "is_digit d \<Longrightarrow> (int_digits acc cs \<noteq> None) = digit_groups (d # cs)"
proof (induction acc cs arbitrary: d rule: int_digits.induct)
  case (1 acc)
  then show ?case by (simp add: digit_groups_digit)
next
  case (2 acc c)
  then show ?case
    by (auto simp add: digit_groups_digit digit_groups_nondigit digit_not_underscore)
next
  case (3 acc c e es)
  show ?case
  proof (cases "is_digit c")
    case True
    have "digit_groups (d # c # e # es) = digit_groups (c # e # es)"
      using digit_groups_digit [OF "3.prems", of "c # e # es"] True
      by (simp add: digit_not_underscore)
    with "3.IH"(1) [OF True True] True show ?thesis by simp
  next
    case False
    show ?thesis
    proof (cases "c = CHR ''_'' \<and> is_digit e")
      case True
      have "digit_groups (d # c # e # es) = digit_groups (e # es)"
        using digit_groups_digit [OF "3.prems", of "c # e # es"] True by simp
      with "3.IH"(2) [OF False True, of e] True False show ?thesis by simp
    next
      case neither: False
      with 3 False show ?thesis
        by (auto simp add: digit_groups_digit [of d] digit_groups_nondigit)
    qed
  qed
qed

lemma int_digits_value:
  "int_digits acc cs = Some n \<Longrightarrow>
   n = foldl (\<lambda>acc c. acc * 10 + digit_val c) acc (filter is_digit cs)"
  by (induction acc cs arbitrary: n rule: int_digits.induct)
     (auto split: if_splits simp add: digit_not_underscore)

lemma int_unsigned_literal:
  "int_unsigned s = (if digit_groups s then Some (decimal_value (filter is_digit s)) else None)"
proof (cases s)
  case Nil
  then show ?thesis by (simp add: int_unsigned_def)
next
  case (Cons c cs)
  show ?thesis
  proof (cases "is_digit c")
    case False
    with Cons show ?thesis by (simp add: int_unsigned_def digit_groups_nondigit)
  next
    case True
    show ?thesis
    proof (cases "int_digits (digit_val c) cs")
      case None
      with int_digits_accepts [OF True, of "digit_val c" cs] True Cons show ?thesis
        by (simp add: int_unsigned_def)
    next
      case (Some n)
      with int_digits_accepts [OF True, of "digit_val c" cs] have "digit_groups (c # cs)" by simp
      with int_digits_value [OF Some] Some True Cons show ?thesis
        by (simp add: int_unsigned_def decimal_value_def)
    qed
  qed
qed

lemma py_int_literal:
  "py_int s =
     (if integer_literal (strip (transform_decimal_and_space_to_ascii s))
      then Inr (integer_literal_value (strip (transform_decimal_and_space_to_ascii s)))
      else Inl ValueError)"
  by (simp add: py_int_def Let_def int_unsigned_literal integer_literal_def integer_literal_value_def
        unsigned_part_def int_max_str_digits_def)

lemma py_int_error: "py_int s = Inl e \<Longrightarrow> e = ValueError"
  by (simp add: py_int_literal split: if_splits)

text \<open>On a token nothing is transformed and nothing is stripped.\<close>

lemma strip_noop:
  assumes "list_all (\<lambda>c. \<not> is_space c) s"
  shows "strip s = s"
proof -
  from assms have "dropWhile is_space s = s"
    by (cases s) auto
  moreover from assms have "dropWhile is_space (rev s) = rev s"
    by (cases "rev s") (auto simp add: list_all_iff)
  ultimately show ?thesis by (simp add: strip_def)
qed

lemma ascii_token_unchanged:
  "ascii_token t \<Longrightarrow> strip (transform_decimal_and_space_to_ascii t) = t"
  by (simp add: ascii_token_def transform_decimal_and_space_to_ascii_def strip_noop)

lemma py_int_token:
  "ascii_token t \<Longrightarrow>
   py_int t = (if integer_literal t then Inr (integer_literal_value t) else Inl ValueError)"
  by (simp add: py_int_literal ascii_token_unchanged)

text \<open>The specification's base-10 signed integers.\<close>

lemma base10_ascii_token:
  assumes "base10_signed_integer u"
  shows "ascii_token u"
proof -
  have sign: "(of_char c :: nat) < 128 \<and> \<not> is_space c" if "c = CHR ''-'' \<or> c = CHR ''+''" for c
    using that by (auto simp add: is_space_def)
  have digit: "(of_char c :: nat) < 128 \<and> \<not> is_space c" if "is_digit c" for c
    using that by (simp add: digit_ascii digit_not_space)
  from assms obtain c cs where u: "u = c # cs"
    by (cases u) (auto simp add: base10_signed_integer_def)
  show ?thesis
  proof (cases "c = CHR ''-'' \<or> c = CHR ''+''")
    case True
    with assms u have "list_all is_digit cs"
      by (auto simp add: base10_signed_integer_def)
    with sign [OF True] digit show ?thesis
      by (auto simp add: ascii_token_def is_ascii_def u list_all_iff)
  next
    case False
    with assms u have "list_all is_digit u"
      by (auto simp add: base10_signed_integer_def)
    with digit show ?thesis
      by (auto simp add: ascii_token_def is_ascii_def list_all_iff)
  qed
qed

lemma base10_integer_literal:
  assumes "base10_signed_integer u"
  shows "integer_literal u = (length (filter is_digit u) \<le> 4300)"
proof -
  from assms obtain c cs where u: "u = c # cs"
    by (cases u) (auto simp add: base10_signed_integer_def)
  show ?thesis
  proof (cases "c = CHR ''-'' \<or> c = CHR ''+''")
    case True
    with assms u have cs: "cs \<noteq> []" "list_all is_digit cs"
      by (auto simp add: base10_signed_integer_def)
    from True have "\<not> is_digit c" by (auto simp add: is_digit_def)
    with True cs show ?thesis
      by (simp add: integer_literal_def unsigned_part_def u digit_groups_def split_underscore_digits)
  next
    case False
    with assms u have ds: "list_all is_digit u"
      by (auto simp add: base10_signed_integer_def)
    with False u show ?thesis
      by (simp add: integer_literal_def unsigned_part_def digit_groups_def split_underscore_digits
            del: split_underscore.simps)
  qed
qed

lemma negative_digits_is_argument:
  assumes cs: "cs \<noteq> []" "list_all is_digit cs"
  shows "is_argument (CHR ''-'' # cs)"
proof -
  let ?t = "CHR ''-'' # cs"
  obtain d ds where c: "cs = d # ds" using cs by (cases cs) auto
  with cs have d: "is_digit d" by simp
  have all: "\<forall>x\<in>set cs. is_digit x" using cs by (simp add: list_all_iff)
  have neq: "CHR ''='' \<notin> set ?t"
    using all digit_not_sign by auto
  have lst: "last ?t \<noteq> CHR 0x0A"
    using all cs digit_not_sign by (metis last_ConsR last_in_set)
  have tuples: "get_option_tuples ?t = []"
    using d digit_not_sign [OF d]
    by (auto simp add: get_option_tuples_def option_strings_def startswith_def c)
  have neg: "negative_number ?t"
    using cs lst by (simp add: negative_number_def)
  have "?t \<notin> set option_strings"
    using d digit_not_sign [OF d] by (auto simp add: option_strings_def c)
  with neq tuples neg have "parse_optional ?t = A"
    using cs by (simp add: parse_optional_def)
  moreover have "?t \<noteq> ''--''"
    using d digit_not_sign [OF d] by (auto simp add: c)
  ultimately show ?thesis by (simp add: is_argument_def)
qed

lemma base10_is_argument:
  assumes "base10_signed_integer t"
  shows "is_argument t"
proof -
  from assms obtain c cs where t: "t = c # cs"
    by (cases t) (auto simp add: base10_signed_integer_def)
  show ?thesis
  proof (cases "c = CHR ''-''")
    case True
    with assms t show ?thesis
      by (auto simp add: base10_signed_integer_def intro: negative_digits_is_argument)
  next
    case False
    with t show ?thesis by (simp add: is_argument_no_dash)
  qed
qed

lemma get_value_int:
  "get_value isCS d TInt t =
     (case py_int t of Inr i \<Rightarrow> Inr (VInt i) | Inl e \<Rightarrow> Inl (Error (InvalidValue d ''int'' t)))"
  by (auto simp add: get_value_def type_func_def type_name_def split: sum.splits
        dest: py_int_error)

lemma parse_args_change_threshold:
  assumes "is_argument t"
  shows "parse_args isCS [''change_threshold'', t] =
     (case py_int t of
        Inr i \<Rightarrow> Inr \<lparr>attrs = [(''threshold'', VInt i)], func = Some change_threshold,
                       unrecognized = []\<rparr>
      | Inl e \<Rightarrow> Inl (Error (InvalidValue ''threshold'' ''int'' t)))"
  using assms
  by (simp add: parse_args_registered_ones [OF registered_change_threshold] get_value_int setattr_def
        split: sum.splits)

lemma parse_args_send_ether:
  assumes "is_argument a" "isCS a" "is_argument t"
  shows "parse_args isCS [''send_ether'', a, t] =
     (case py_int t of
        Inr i \<Rightarrow> Inr \<lparr>attrs = [(''address'', VStr a), (''value'', VInt i)], func = Some send_ether,
                       unrecognized = []\<rparr>
      | Inl e \<Rightarrow> Inl (Error (InvalidValue ''value'' ''int'' t)))"
  using assms
  by (simp add: parse_args_registered_ones [OF registered_send_ether] get_value_int get_value_address
        setattr_def split: sum.splits)

lemma parse_args_send_erc20:
  assumes "is_argument a" "isCS a" "is_argument b" "isCS b" "is_argument t"
  shows "parse_args isCS [''send_erc20'', a, b, t] =
     (case py_int t of
        Inr i \<Rightarrow> Inr \<lparr>attrs = [(''address'', VStr a), (''token_address'', VStr b), (''value'', VInt i)],
                       func = Some send_erc20, unrecognized = []\<rparr>
      | Inl e \<Rightarrow> Inl (Error (InvalidValue ''value'' ''int'' t)))"
  using assms
  by (simp add: parse_args_registered_ones [OF registered_send_erc20] get_value_int get_value_address
        setattr_def split: sum.splits)

lemma parse_args_send_erc721:
  assumes "is_argument a" "isCS a" "is_argument b" "isCS b" "is_argument t"
  shows "parse_args isCS [''send_erc721'', a, b, t] =
     (case py_int t of
        Inr i \<Rightarrow> Inr \<lparr>attrs = [(''address'', VStr a), (''token_address'', VStr b), (''token_id'', VInt i)],
                       func = Some send_erc721, unrecognized = []\<rparr>
      | Inl e \<Rightarrow> Inl (Error (InvalidValue ''token_id'' ''int'' t)))"
  using assms
  by (simp add: parse_args_registered_ones [OF registered_send_erc721] get_value_int get_value_address
        setattr_def split: sum.splits)

section \<open>Only validated addresses reach a parsed command\<close>











section \<open>A dispatched line\<close>

text \<open>
  A line that parses is dispatched: the handler runs once and calls the operator with the
  parsed address (the first end-to-end scenario of the specification).
\<close>

lemma dispatch_add_owner_example:
  "dispatch sample_HTML sample_isChecksumAddress silent_operator
     [''add_owner'', ''0x5aAeb6053F3E94C9b9A09f33669435E7Ef1BeAed''] empty_world =
   (Returned,
    \<lparr>console = [], argparse_output = [],
     calls = [(''add_owner'', [VStr ''0x5aAeb6053F3E94C9b9A09f33669435E7Ef1BeAed''])]\<rparr>)"
proof -
  have "parse_args sample_isChecksumAddress
          [''add_owner'', ''0x5aAeb6053F3E94C9b9A09f33669435E7Ef1BeAed''] =
        Inr \<lparr>attrs = [(''address'', VStr ''0x5aAeb6053F3E94C9b9A09f33669435E7Ef1BeAed'')],
             func = Some add_owner, unrecognized = []\<rparr>"
    by (simp add: parse_args_registered_ones [OF registered_add_owner] is_argument_no_dash
          get_value_address setattr_def sample_isChecksumAddress_def)
  then show ?thesis
    by (simp add: dispatch_def resolve_def safe_exception_def handler_body_def operator_method_def
          getattr_def silent_operator_def empty_world_def)
qed

section \<open>The claims\<close>

subsection \<open>C1: every error kind is translated into its message\<close>

text \<open>
  Claim C1, as stated, fails: the payload is put into the markup as it is, and \<open>HTML\<close> parses
  the markup. A stub that raises \<open>ExistingOwnerException\<close> with the payload \<open>a & b\<close> makes the
  markup ill-formed: the constructor raises, the exception leaves the wrapper and no
  message is emitted.
\<close>

theorem C1_counterexample:
  "sample_HTML ''<ansired>Owner a & b is already an owner of the Safe</ansired>'' = Some ExpatError
   \<and> safe_exception sample_HTML (raising_stub (Exn ExistingOwnerException [PStr ''a & b''])) ()
         empty_world = (Inl ExpatError, empty_world)
   \<and> console empty_world = []"
  by (simp add: wrapper_defs raising_stub_def sample_HTML_def empty_world_def)

text \<open>
  Claim C1, amended. When the wrapped function raises one of the thirteen exception classes
  behind the twelve error kinds (the two balance classes share a kind), carrying its payload
  where the kind has one, and \<open>HTML\<close> accepts the markup of that kind filled with the first
  payload element (it is well-formed, as it is for an address or a number), the wrapper
  returns normally and the console grows by exactly that markup; nothing else of the world
  changes.
\<close>

theorem C1_each_kind_emits_its_template:
  assumes "fn a w = (Inl (Exn k ps), w')"
  shows
   "(k = BaseAPIException \<and> ps = p # rest
       \<and> HTML (''<b><ansired>'' @ format p @ ''</ansired></b>'') = None \<longrightarrow>
       safe_exception HTML fn a w =
         (Inr None, w'\<lparr>console := console w' @
            [''<b><ansired>'' @ format p @ ''</ansired></b>'']\<rparr>))
  \<and> (k = NotEnoughSignatures \<and> ps = p # rest
       \<and> HTML (''<ansired>Cannot find enough owners to sign. '' @ format p @ '' missing</ansired>'') = None \<longrightarrow>
       safe_exception HTML fn a w =
         (Inr None, w'\<lparr>console := console w' @
            [''<ansired>Cannot find enough owners to sign. '' @ format p @ '' missing</ansired>'']\<rparr>))
  \<and> (k = SenderRequiredException
       \<and> HTML ''<ansired>Please load a default sender</ansired>'' = None \<longrightarrow>
       safe_exception HTML fn a w =
         (Inr None, w'\<lparr>console := console w' @
            [''<ansired>Please load a default sender</ansired>'']\<rparr>))
  \<and> (k = ExistingOwnerException \<and> ps = p # rest
       \<and> HTML (''<ansired>Owner '' @ format p @ '' is already an owner of the Safe</ansired>'') = None \<longrightarrow>
       safe_exception HTML fn a w =
         (Inr None, w'\<lparr>console := console w' @
            [''<ansired>Owner '' @ format p @ '' is already an owner of the Safe</ansired>'']\<rparr>))
  \<and> (k = NonExistingOwnerException \<and> ps = p # rest
       \<and> HTML (''<ansired>Owner '' @ format p @ '' is not an owner of the Safe</ansired>'') = None \<longrightarrow>
       safe_exception HTML fn a w =
         (Inr None, w'\<lparr>console := console w' @
            [''<ansired>Owner '' @ format p @ '' is not an owner of the Safe</ansired>'']\<rparr>))
  \<and> (k = ThresholdLimitException
       \<and> HTML ''<ansired>Having less owners than threshold is not allowed</ansired>'' = None \<longrightarrow>
       safe_exception HTML fn a w =
         (Inr None, w'\<lparr>console := console w' @
            [''<ansired>Having less owners than threshold is not allowed</ansired>'']\<rparr>))
  \<and> (k = SameFallbackHandlerException \<and> ps = p # rest
       \<and> HTML (''<ansired>Fallback handler '' @ format p @ '' is the current one</ansired>'') = None \<longrightarrow>
       safe_exception HTML fn a w =
         (Inr None, w'\<lparr>console := console w' @
            [''<ansired>Fallback handler '' @ format p @ '' is the current one</ansired>'']\<rparr>))
  \<and> (k = FallbackHandlerNotSupportedException
       \<and> HTML ''<ansired>Fallback handler is not supported for your Safe, you need to <b>update</b> first</ansired>'' = None \<longrightarrow>
       safe_exception HTML fn a w =
         (Inr None, w'\<lparr>console := console w' @
            [''<ansired>Fallback handler is not supported for your Safe, you need to <b>update</b> first</ansired>'']\<rparr>))
  \<and> (k = SameMasterCopyException \<and> ps = p # rest
       \<and> HTML (''<ansired>Master Copy '' @ format p @ '' is the current one</ansired>'') = None \<longrightarrow>
       safe_exception HTML fn a w =
         (Inr None, w'\<lparr>console := console w' @
            [''<ansired>Master Copy '' @ format p @ '' is the current one</ansired>'']\<rparr>))
  \<and> (k = InvalidMasterCopyException \<and> ps = p # rest
       \<and> HTML (''<ansired>Master Copy '' @ format p @ '' is not valid</ansired>'') = None \<longrightarrow>
       safe_exception HTML fn a w =
         (Inr None, w'\<lparr>console := console w' @
            [''<ansired>Master Copy '' @ format p @ '' is not valid</ansired>'']\<rparr>))
  \<and> (k = SafeAlreadyUpdatedException
       \<and> HTML ''<ansired>Safe is already updated</ansired>'' = None \<longrightarrow>
       safe_exception HTML fn a w =
         (Inr None, w'\<lparr>console := console w' @
            [''<ansired>Safe is already updated</ansired>'']\<rparr>))
  \<and> (k = NotEnoughEtherToSend \<and> ps = p # rest
       \<and> HTML (''<ansired>Cannot find enough to send. Current balance is '' @ format p @ ''</ansired>'') = None \<longrightarrow>
       safe_exception HTML fn a w =
         (Inr None, w'\<lparr>console := console w' @
            [''<ansired>Cannot find enough to send. Current balance is '' @ format p @ ''</ansired>'']\<rparr>))
  \<and> (k = NotEnoughTokenToSend \<and> ps = p # rest
       \<and> HTML (''<ansired>Cannot find enough to send. Current balance is '' @ format p @ ''</ansired>'') = None \<longrightarrow>
       safe_exception HTML fn a w =
         (Inr None, w'\<lparr>console := console w' @
            [''<ansired>Cannot find enough to send. Current balance is '' @ format p @ ''</ansired>'']\<rparr>))"
  using assms by (simp add: wrapper_defs)

text \<open>
  One stub per exception class, without payload for the kinds that carry none; the balance
  500 appears in the message of \<open>NotEnoughEtherToSend\<close>.
\<close>

theorem C1_witness:
  "safe_exception sample_HTML (raising_stub (Exn BaseAPIException [PStr ''relay unreachable''])) () empty_world =
       (Inr None, empty_world\<lparr>console := [''<b><ansired>relay unreachable</ansired></b>'']\<rparr>)
   \<and> safe_exception sample_HTML (raising_stub (Exn NotEnoughSignatures [PInt 2])) () empty_world =
       (Inr None, empty_world\<lparr>console := [''<ansired>Cannot find enough owners to sign. 2 missing</ansired>'']\<rparr>)
   \<and> safe_exception sample_HTML (raising_stub (Exn SenderRequiredException [])) () empty_world =
       (Inr None, empty_world\<lparr>console := [''<ansired>Please load a default sender</ansired>'']\<rparr>)
   \<and> safe_exception sample_HTML (raising_stub (Exn ExistingOwnerException [PStr ''0x5aAeb6053F3E94C9b9A09f33669435E7Ef1BeAed''])) () empty_world =
       (Inr None, empty_world\<lparr>console := [''<ansired>Owner 0x5aAeb6053F3E94C9b9A09f33669435E7Ef1BeAed is already an owner of the Safe</ansired>'']\<rparr>)
   \<and> safe_exception sample_HTML (raising_stub (Exn NonExistingOwnerException [PStr ''0x5aAeb6053F3E94C9b9A09f33669435E7Ef1BeAed''])) () empty_world =
       (Inr None, empty_world\<lparr>console := [''<ansired>Owner 0x5aAeb6053F3E94C9b9A09f33669435E7Ef1BeAed is not an owner of the Safe</ansired>'']\<rparr>)
   \<and> safe_exception sample_HTML (raising_stub (Exn ThresholdLimitException [])) () empty_world =
       (Inr None, empty_world\<lparr>console := [''<ansired>Having less owners than threshold is not allowed</ansired>'']\<rparr>)
   \<and> safe_exception sample_HTML (raising_stub (Exn SameFallbackHandlerException [PStr ''0x5aAeb6053F3E94C9b9A09f33669435E7Ef1BeAed''])) () empty_world =
       (Inr None, empty_world\<lparr>console := [''<ansired>Fallback handler 0x5aAeb6053F3E94C9b9A09f33669435E7Ef1BeAed is the current one</ansired>'']\<rparr>)
   \<and> safe_exception sample_HTML (raising_stub (Exn FallbackHandlerNotSupportedException [])) () empty_world =
       (Inr None, empty_world\<lparr>console := [''<ansired>Fallback handler is not supported for your Safe, you need to <b>update</b> first</ansired>'']\<rparr>)
   \<and> safe_exception sample_HTML (raising_stub (Exn SameMasterCopyException [PStr ''0x5aAeb6053F3E94C9b9A09f33669435E7Ef1BeAed''])) () empty_world =
       (Inr None, empty_world\<lparr>console := [''<ansired>Master Copy 0x5aAeb6053F3E94C9b9A09f33669435E7Ef1BeAed is the current one</ansired>'']\<rparr>)
   \<and> safe_exception sample_HTML (raising_stub (Exn InvalidMasterCopyException [PStr ''0x5aAeb6053F3E94C9b9A09f33669435E7Ef1BeAed''])) () empty_world =
       (Inr None, empty_world\<lparr>console := [''<ansired>Master Copy 0x5aAeb6053F3E94C9b9A09f33669435E7Ef1BeAed is not valid</ansired>'']\<rparr>)
   \<and> safe_exception sample_HTML (raising_stub (Exn SafeAlreadyUpdatedException [])) () empty_world =
       (Inr None, empty_world\<lparr>console := [''<ansired>Safe is already updated</ansired>'']\<rparr>)
   \<and> safe_exception sample_HTML (raising_stub (Exn NotEnoughEtherToSend [PInt 500])) () empty_world =
       (Inr None, empty_world\<lparr>console := [''<ansired>Cannot find enough to send. Current balance is 500</ansired>'']\<rparr>)
   \<and> safe_exception sample_HTML (raising_stub (Exn NotEnoughTokenToSend [PInt (- 7)])) () empty_world =
       (Inr None, empty_world\<lparr>console := [''<ansired>Cannot find enough to send. Current balance is -7</ansired>'']\<rparr>)"
  using
    C1_each_kind_emits_its_template
      [where fn = "raising_stub (Exn BaseAPIException [PStr ''relay unreachable''])" and a = "()" and w = empty_world
         and k = BaseAPIException and ps = "[PStr ''relay unreachable'']" and w' = empty_world and p = "PStr ''relay unreachable''" and rest = "[]"
         and HTML = sample_HTML]
    C1_each_kind_emits_its_template
      [where fn = "raising_stub (Exn NotEnoughSignatures [PInt 2])" and a = "()" and w = empty_world
         and k = NotEnoughSignatures and ps = "[PInt 2]" and w' = empty_world and p = "PInt 2" and rest = "[]"
         and HTML = sample_HTML]
    C1_each_kind_emits_its_template
      [where fn = "raising_stub (Exn SenderRequiredException [])" and a = "()" and w = empty_world
         and k = SenderRequiredException and ps = "[]" and w' = empty_world and HTML = sample_HTML]
    C1_each_kind_emits_its_template
      [where fn = "raising_stub (Exn ExistingOwnerException [PStr ''0x5aAeb6053F3E94C9b9A09f33669435E7Ef1BeAed''])" and a = "()" and w = empty_world
         and k = ExistingOwnerException and ps = "[PStr ''0x5aAeb6053F3E94C9b9A09f33669435E7Ef1BeAed'']" and w' = empty_world and p = "PStr ''0x5aAeb6053F3E94C9b9A09f33669435E7Ef1BeAed''" and rest = "[]"
         and HTML = sample_HTML]
    C1_each_kind_emits_its_template
      [where fn = "raising_stub (Exn NonExistingOwnerException [PStr ''0x5aAeb6053F3E94C9b9A09f33669435E7Ef1BeAed''])" and a = "()" and w = empty_world
         and k = NonExistingOwnerException and ps = "[PStr ''0x5aAeb6053F3E94C9b9A09f33669435E7Ef1BeAed'']" and w' = empty_world and p = "PStr ''0x5aAeb6053F3E94C9b9A09f33669435E7Ef1BeAed''" and rest = "[]"
         and HTML = sample_HTML]
    C1_each_kind_emits_its_template
      [where fn = "raising_stub (Exn ThresholdLimitException [])" and a = "()" and w = empty_world
         and k = ThresholdLimitException and ps = "[]" and w' = empty_world and HTML = sample_HTML]
    C1_each_kind_emits_its_template
      [where fn = "raising_stub (Exn SameFallbackHandlerException [PStr ''0x5aAeb6053F3E94C9b9A09f33669435E7Ef1BeAed''])" and a = "()" and w = empty_world
         and k = SameFallbackHandlerException and ps = "[PStr ''0x5aAeb6053F3E94C9b9A09f33669435E7Ef1BeAed'']" and w' = empty_world and p = "PStr ''0x5aAeb6053F3E94C9b9A09f33669435E7Ef1BeAed''" and rest = "[]"
         and HTML = sample_HTML]
    C1_each_kind_emits_its_template
      [where fn = "raising_stub (Exn FallbackHandlerNotSupportedException [])" and a = "()" and w = empty_world
         and k = FallbackHandlerNotSupportedException and ps = "[]" and w' = empty_world and HTML = sample_HTML]
    C1_each_kind_emits_its_template
      [where fn = "raising_stub (Exn SameMasterCopyException [PStr ''0x5aAeb6053F3E94C9b9A09f33669435E7Ef1BeAed''])" and a = "()" and w = empty_world
         and k = SameMasterCopyException and ps = "[PStr ''0x5aAeb6053F3E94C9b9A09f33669435E7Ef1BeAed'']" and w' = empty_world and p = "PStr ''0x5aAeb6053F3E94C9b9A09f33669435E7Ef1BeAed''" and rest = "[]"
         and HTML = sample_HTML]
    C1_each_kind_emits_its_template
      [where fn = "raising_stub (Exn InvalidMasterCopyException [PStr ''0x5aAeb6053F3E94C9b9A09f33669435E7Ef1BeAed''])" and a = "()" and w = empty_world
         and k = InvalidMasterCopyException and ps = "[PStr ''0x5aAeb6053F3E94C9b9A09f33669435E7Ef1BeAed'']" and w' = empty_world and p = "PStr ''0x5aAeb6053F3E94C9b9A09f33669435E7Ef1BeAed''" and rest = "[]"
         and HTML = sample_HTML]
    C1_each_kind_emits_its_template
      [where fn = "raising_stub (Exn SafeAlreadyUpdatedException [])" and a = "()" and w = empty_world
         and k = SafeAlreadyUpdatedException and ps = "[]" and w' = empty_world and HTML = sample_HTML]
    C1_each_kind_emits_its_template
      [where fn = "raising_stub (Exn NotEnoughEtherToSend [PInt 500])" and a = "()" and w = empty_world
         and k = NotEnoughEtherToSend and ps = "[PInt 500]" and w' = empty_world and p = "PInt 500" and rest = "[]"
         and HTML = sample_HTML]
    C1_each_kind_emits_its_template
      [where fn = "raising_stub (Exn NotEnoughTokenToSend [PInt (- 7)])" and a = "()" and w = empty_world
         and k = NotEnoughTokenToSend and ps = "[PInt (- 7)]" and w' = empty_world and p = "PInt (- 7)" and rest = "[]"
         and HTML = sample_HTML]
  by (simp add: raising_stub_def empty_world_def sample_HTML_def str_int_def str_nat.simps digit_char_def)

subsection \<open>C2: other failures propagate\<close>

text \<open>
  Claim C2. A failure of any class outside the thirteen caught ones is not translated: the
  wrapper raises the same exception, and the world is as the wrapped function left it.
\<close>

theorem C2_other_failures_propagate:
  assumes "fn a w = (Inl e, w')"
    and "cls e \<notin> {BaseAPIException, NotEnoughSignatures, SenderRequiredException,
                    ExistingOwnerException, NonExistingOwnerException, ThresholdLimitException,
                    SameFallbackHandlerException, FallbackHandlerNotSupportedException,
                    SameMasterCopyException, InvalidMasterCopyException,
                    SafeAlreadyUpdatedException, NotEnoughEtherToSend, NotEnoughTokenToSend}"
  shows "safe_exception HTML fn a w = (Inl e, w')"
  using assms by (cases "cls e") (simp_all add: safe_exception_def except_clauses_def)

theorem C2_witness:
  "safe_exception sample_HTML (\<lambda>a w. (Inl (Exn (OtherException ''ConnectionError'') [PStr ''timeout'']), w)) ()
       \<lparr>console = [], argparse_output = [], calls = []\<rparr>
     = (Inl (Exn (OtherException ''ConnectionError'') [PStr ''timeout'']),
        \<lparr>console = [], argparse_output = [], calls = []\<rparr>)"
  using C2_other_failures_propagate
      [where HTML = sample_HTML
         and fn = "\<lambda>a w. (Inl (Exn (OtherException ''ConnectionError'') [PStr ''timeout'']), w)"
         and a = "()" and w = "\<lparr>console = [], argparse_output = [], calls = []\<rparr>"
         and e = "Exn (OtherException ''ConnectionError'') [PStr ''timeout'']"
         and w' = "\<lparr>console = [], argparse_output = [], calls = []\<rparr>"]
  by simp

subsection \<open>C3: the address validator\<close>

text \<open>
  Claim C3. For every string the validator returns the string itself, unchanged, exactly
  when the library predicate \<open>isChecksumAddress\<close> holds for it, and otherwise raises
  \<open>ArgumentTypeError\<close> with a message that starts with the offending string. The validator
  has no access to the world.
\<close>

theorem C3_validator_accepts_exactly_checksum_addresses:
  "(check_ethereum_address isChecksumAddress S = Inr S \<longleftrightarrow> isChecksumAddress S)
   \<and> (\<forall>r. check_ethereum_address isChecksumAddress S = Inr r \<longrightarrow> r = S)
   \<and> (\<not> isChecksumAddress S \<longrightarrow>
        check_ethereum_address isChecksumAddress S =
          Inl (ArgumentTypeError (S @ '' is not a valid checksummed ethereum address'')))"
  by (simp add: check_ethereum_address_def)

theorem C3_witness:
  "check_ethereum_address sample_isChecksumAddress ''0x5aAeb6053F3E94C9b9A09f33669435E7Ef1BeAed''
     = Inr ''0x5aAeb6053F3E94C9b9A09f33669435E7Ef1BeAed''
   \<and> check_ethereum_address sample_isChecksumAddress ''notanaddress''
     = Inl (ArgumentTypeError ''notanaddress is not a valid checksummed ethereum address'')"
  using
    C3_validator_accepts_exactly_checksum_addresses
      [of sample_isChecksumAddress "''0x5aAeb6053F3E94C9b9A09f33669435E7Ef1BeAed''"]
    C3_validator_accepts_exactly_checksum_addresses
      [of sample_isChecksumAddress "''notanaddress''"]
  by (simp add: sample_isChecksumAddress_def)

subsection \<open>C4: wrong argument counts\<close>

text \<open>
  Claim C4, as stated, fails: \<open>send_ether\<close> needs two arguments, the line \<open>send_ether -h\<close>
  supplies one token, and the parser prints the help text and exits with status 0; no
  error is reported.
\<close>

theorem C4_counterexample:
  "map_of subparsers ''send_ether'' =
     Some ([Store ''address'' TAddress NARGS_None, Store ''value'' TInt NARGS_None], send_ether)
   \<and> parse_args sample_isChecksumAddress [''send_ether'', ''-h''] = Inl HelpExit
   \<and> dispatch sample_HTML sample_isChecksumAddress silent_operator [''send_ether'', ''-h''] empty_world =
       (Exited HelpExit, \<lparr>console = [], argparse_output = [HelpExit], calls = []\<rparr>)"
  by (simp add: registered_send_ether parse_args_help_after_command [OF registered_send_ether]
        dispatch_help empty_world_def)

text \<open>
  Claim C4, amended. For every registered command:
  \<^item> a line with fewer argument tokens than the command has positionals (which includes no
    token at all for a one-or-more positional) never parses: \<open>parse_args\<close> exits with an
    argparse error or, when the line holds an option string such as \<open>-h\<close>, possibly with the
    help exit; the handler is not invoked and nothing but argparse's message is printed;
  \<^item> when every token is an argument (no option string, no \<open>--\<close>), any number of tokens that
    does not satisfy the arity, too few or too many, ends in an argparse error, and again
    the handler is not invoked.
\<close>

theorem C4_wrong_argument_count_fails:
  assumes "map_of subparsers c = Some (ps, h)"
  shows "(length ss < length ps \<longrightarrow>
           (\<exists>x. (x = HelpExit \<or> (\<exists>m. x = Error m))
                \<and> parse_args isChecksumAddress (c # ss) = Inl x
                \<and> dispatch HTML isChecksumAddress safe_operator (c # ss) w =
                    (Exited x, w\<lparr>argparse_output := argparse_output w @ [x]\<rparr>)))
       \<and> ((\<forall>s\<in>set ss. is_argument s) \<and> \<not> arity_ok ps (length ss) \<longrightarrow>
           (\<exists>m. parse_args isChecksumAddress (c # ss) = Inl (Error m)
                \<and> dispatch HTML isChecksumAddress safe_operator (c # ss) w =
                    (Exited (Error m), w\<lparr>argparse_output := argparse_output w @ [Error m]\<rparr>)))"
proof (intro conjI impI)
  assume "length ss < length ps"
  from too_few_never_parses [OF assms this]
  obtain x where "x = HelpExit \<or> (\<exists>m. x = Error m)" "parse_args isChecksumAddress (c # ss) = Inl x"
    by blast
  with dispatch_exit [where isCS = isChecksumAddress and ts = "c # ss" and x = x and HTML = HTML
         and oper = safe_operator and w = w]
  show "\<exists>x. (x = HelpExit \<or> (\<exists>m. x = Error m))
            \<and> parse_args isChecksumAddress (c # ss) = Inl x
            \<and> dispatch HTML isChecksumAddress safe_operator (c # ss) w =
                (Exited x, w\<lparr>argparse_output := argparse_output w @ [x]\<rparr>)"
    by blast
next
  assume "(\<forall>s\<in>set ss. is_argument s) \<and> \<not> arity_ok ps (length ss)"
  with arity_failure [OF assms, of ss isChecksumAddress]
  obtain m where "parse_args isChecksumAddress (c # ss) = Inl (Error m)" by blast
  with dispatch_error [where isCS = isChecksumAddress and ts = "c # ss" and m = m and HTML = HTML
         and oper = safe_operator and w = w]
  show "\<exists>m. parse_args isChecksumAddress (c # ss) = Inl (Error m)
            \<and> dispatch HTML isChecksumAddress safe_operator (c # ss) w =
                (Exited (Error m), w\<lparr>argparse_output := argparse_output w @ [Error m]\<rparr>)"
    by blast
qed

text \<open>
  \<open>send_ether\<close> with its address but no value, and \<open>load_cli_owners\<close> with no key: both
  fail with an error and call nothing.
\<close>

theorem C4_witness:
  "(\<exists>m. parse_args sample_isChecksumAddress
            [''send_ether'', ''0x5aAeb6053F3E94C9b9A09f33669435E7Ef1BeAed''] = Inl (Error m)
        \<and> dispatch sample_HTML sample_isChecksumAddress silent_operator
            [''send_ether'', ''0x5aAeb6053F3E94C9b9A09f33669435E7Ef1BeAed''] empty_world =
            (Exited (Error m), empty_world\<lparr>argparse_output := argparse_output empty_world @ [Error m]\<rparr>))
   \<and> (\<exists>x. (x = HelpExit \<or> (\<exists>m. x = Error m))
        \<and> parse_args sample_isChecksumAddress [''load_cli_owners''] = Inl x
        \<and> dispatch sample_HTML sample_isChecksumAddress silent_operator [''load_cli_owners''] empty_world =
            (Exited x, empty_world\<lparr>argparse_output := argparse_output empty_world @ [x]\<rparr>))"
proof -
  have plus: "map_of subparsers ''load_cli_owners'' = Some ([Store ''keys'' TStr ONE_OR_MORE], load_cli_owners)"
    by (simp add: subparsers_def)
  have arg: "\<forall>s\<in>set [''0x5aAeb6053F3E94C9b9A09f33669435E7Ef1BeAed'']. is_argument s"
    by (simp add: is_argument_no_dash)
  have bad: "\<not> arity_ok [Store ''address'' TAddress NARGS_None, Store ''value'' TInt NARGS_None]
               (length [''0x5aAeb6053F3E94C9b9A09f33669435E7Ef1BeAed''])"
    by (simp add: arity_ok_def)
  from C4_wrong_argument_count_fails
         [OF registered_send_ether,
            where ss = "[''0x5aAeb6053F3E94C9b9A09f33669435E7Ef1BeAed'']"
              and isChecksumAddress = sample_isChecksumAddress and HTML = sample_HTML
              and safe_operator = silent_operator and w = empty_world]
       C4_wrong_argument_count_fails
         [OF plus, where ss = "[]" and isChecksumAddress = sample_isChecksumAddress
            and HTML = sample_HTML and safe_operator = silent_operator and w = empty_world]
       arg bad
  show ?thesis by simp
qed

subsection \<open>C5: invalid addresses\<close>




subsection \<open>C6: unknown commands\<close>

text \<open>
  Claim C6, as stated, fails: the token \<open>-h\<close> is not a registered command name, yet the
  parser prints the help text and exits with status 0 instead of reporting an invalid choice.
\<close>

theorem C6_counterexample:
  "''-h'' \<notin> set (map fst subparsers)
   \<and> parse_args sample_isChecksumAddress [''-h''] = Inl HelpExit
   \<and> parse_args sample_isChecksumAddress [''-h''] \<noteq> Inl (Error (InvalidChoice ''-h''))"
  by (simp add: parse_args_help_first subparsers_def)

text \<open>
  Claim C6, amended. For every first token that argparse reads as an argument (in
  particular every token that does not begin with \<open>-\<close>) and that is not a registered command
  name, whatever follows it, \<open>parse_args\<close> exits with the error "invalid choice" for that
  token; no suggestion is made, no handler runs, and the only change to the world is the
  printed error.
\<close>

theorem C6_unknown_command_is_invalid_choice:
  assumes "c \<notin> set (map fst subparsers)" and "is_argument c"
  shows "parse_args isChecksumAddress (c # ss) = Inl (Error (InvalidChoice c))
       \<and> dispatch HTML isChecksumAddress safe_operator (c # ss) w =
           (Exited (Error (InvalidChoice c)),
            w\<lparr>argparse_output := argparse_output w @ [Error (InvalidChoice c)]\<rparr>)"
proof -
  from assms have "parse_args isChecksumAddress (c # ss) = Inl (Error (InvalidChoice c))"
    by (simp add: parse_args_command)
  then show ?thesis
    by (simp add: dispatch_error)
qed

theorem C6_witness:
  "parse_args sample_isChecksumAddress [''bogus_command''] = Inl (Error (InvalidChoice ''bogus_command''))
   \<and> dispatch sample_HTML sample_isChecksumAddress silent_operator [''bogus_command''] empty_world =
       (Exited (Error (InvalidChoice ''bogus_command'')),
        \<lparr>console = [], argparse_output = [Error (InvalidChoice ''bogus_command'')], calls = []\<rparr>)"
proof -
  have 1: "''bogus_command'' \<notin> set (map fst subparsers)"
    by (simp add: subparsers_def)
  have 2: "is_argument ''bogus_command''"
    by (simp add: is_argument_no_dash)
  show ?thesis
    using C6_unknown_command_is_invalid_choice
        [OF 1 2, where isChecksumAddress = sample_isChecksumAddress and ss = "[]"
           and HTML = sample_HTML and safe_operator = silent_operator and w = empty_world]
    by (simp add: empty_world_def)
qed

subsection \<open>C7: error kinds without their payload\<close>

text \<open>
  Claim C7. For the classes whose \<open>except\<close> clause reads \<open>e.args[0]\<close> without a guard
  (\<open>NotEnoughSignatures\<close>, \<open>ExistingOwnerException\<close>, \<open>NonExistingOwnerException\<close>,
  \<open>SameFallbackHandlerException\<close>, \<open>SameMasterCopyException\<close>, \<open>InvalidMasterCopyException\<close>,
  \<open>NotEnoughEtherToSend\<close>, \<open>NotEnoughTokenToSend\<close>), an exception without payload makes the
  wrapper itself fail with \<open>IndexError\<close>; no message is emitted.
\<close>

theorem C7_missing_payload_raises_IndexError:
  assumes "fn a w = (Inl (Exn k []), w')"
    and "k \<in> {NotEnoughSignatures, ExistingOwnerException, NonExistingOwnerException,
               SameFallbackHandlerException, SameMasterCopyException, InvalidMasterCopyException,
               NotEnoughEtherToSend, NotEnoughTokenToSend}"
  shows "safe_exception HTML fn a w = (Inl (Exn IndexError [PStr ''tuple index out of range'']), w')"
  using assms by (auto simp add: wrapper_defs)

theorem C7_witness:
  "safe_exception sample_HTML (\<lambda>a w. (Inl (Exn NotEnoughSignatures []), w)) ()
       \<lparr>console = [], argparse_output = [], calls = []\<rparr>
     = (Inl (Exn IndexError [PStr ''tuple index out of range'']),
        \<lparr>console = [], argparse_output = [], calls = []\<rparr>)"
  using C7_missing_payload_raises_IndexError
      [where HTML = sample_HTML and fn = "\<lambda>a w. (Inl (Exn NotEnoughSignatures []), w)"
         and a = "()" and w = "\<lparr>console = [], argparse_output = [], calls = []\<rparr>"
         and k = NotEnoughSignatures
         and w' = "\<lparr>console = [], argparse_output = [], calls = []\<rparr>"]
  by simp

subsection \<open>C9: integer arguments\<close>

text \<open>
  Claim C9, as stated, fails: \<open>1_0\<close> is not an optional sign followed by decimal digits, yet
  \<open>change_threshold 1_0\<close> parses, with threshold 10; and the non-numeric token \<open>-h\<close> does not
  produce an error but the help exit.
\<close>

theorem C9_counterexample:
  "\<not> base10_signed_integer ''1_0''
   \<and> parse_args sample_isChecksumAddress [''change_threshold'', ''1_0''] =
       Inr \<lparr>attrs = [(''threshold'', VInt 10)], func = Some change_threshold, unrecognized = []\<rparr>
   \<and> \<not> base10_signed_integer ''-h''
   \<and> parse_args sample_isChecksumAddress [''change_threshold'', ''-h''] = Inl HelpExit"
proof -
  have "is_argument ''1_0''" by (simp add: is_argument_no_dash)
  then have "parse_args sample_isChecksumAddress [''change_threshold'', ''1_0''] =
       Inr \<lparr>attrs = [(''threshold'', VInt 10)], func = Some change_threshold, unrecognized = []\<rparr>"
    by (simp add: parse_args_change_threshold int_defs)
  then show ?thesis
    by (simp add: parse_args_help_after_command [OF registered_change_threshold]
          base10_signed_integer_def is_digit_def)
qed

text \<open>
  Claim C9, amended. For a token in an integer slot (the threshold of \<open>change_threshold\<close>, the
  value of \<open>send_ether\<close> and \<open>send_erc20\<close>, the token id of \<open>send_erc721\<close>, the addresses before
  it being valid) that argparse reads as an argument: parsing succeeds exactly when Python's
  \<open>int\<close> accepts the token, and stores its value; otherwise it fails with the error "invalid
  int value" for that slot and token.

  What \<open>int\<close> accepts: after the white space at both ends is dropped, an optional sign
  followed by groups of decimal digits separated by single underscores, with at most 4300
  digits in all; the value is the base-10 value of the digits. On a token of ASCII
  characters nothing is dropped, so the token itself has to be of that form. Every base-10
  signed integer (an optional sign and decimal digits) is read as an argument, and it is
  accepted exactly when it has at most 4300 digits.
\<close>

theorem C9_integer_slot_follows_int:
  assumes "is_argument t"
  shows "parse_args isChecksumAddress [''change_threshold'', t] =
          (case py_int t of
             Inr i \<Rightarrow> Inr \<lparr>attrs = [(''threshold'', VInt i)], func = Some change_threshold,
                            unrecognized = []\<rparr>
           | Inl e \<Rightarrow> Inl (Error (InvalidValue ''threshold'' ''int'' t)))
     \<and> (is_argument a \<and> isChecksumAddress a \<longrightarrow>
          parse_args isChecksumAddress [''send_ether'', a, t] =
            (case py_int t of
               Inr i \<Rightarrow> Inr \<lparr>attrs = [(''address'', VStr a), (''value'', VInt i)],
                              func = Some send_ether, unrecognized = []\<rparr>
             | Inl e \<Rightarrow> Inl (Error (InvalidValue ''value'' ''int'' t))))
     \<and> (is_argument a \<and> isChecksumAddress a \<and> is_argument b \<and> isChecksumAddress b \<longrightarrow>
          parse_args isChecksumAddress [''send_erc20'', a, b, t] =
            (case py_int t of
               Inr i \<Rightarrow> Inr \<lparr>attrs = [(''address'', VStr a), (''token_address'', VStr b),
                                       (''value'', VInt i)],
                              func = Some send_erc20, unrecognized = []\<rparr>
             | Inl e \<Rightarrow> Inl (Error (InvalidValue ''value'' ''int'' t)))
        \<and> parse_args isChecksumAddress [''send_erc721'', a, b, t] =
            (case py_int t of
               Inr i \<Rightarrow> Inr \<lparr>attrs = [(''address'', VStr a), (''token_address'', VStr b),
                                       (''token_id'', VInt i)],
                              func = Some send_erc721, unrecognized = []\<rparr>
             | Inl e \<Rightarrow> Inl (Error (InvalidValue ''token_id'' ''int'' t))))
     \<and> py_int x =
         (if integer_literal (strip (transform_decimal_and_space_to_ascii x))
          then Inr (integer_literal_value (strip (transform_decimal_and_space_to_ascii x)))
          else Inl ValueError)
     \<and> (ascii_token x \<longrightarrow>
          py_int x = (if integer_literal x then Inr (integer_literal_value x) else Inl ValueError))
     \<and> (base10_signed_integer u \<longrightarrow>
          is_argument u \<and> ascii_token u
          \<and> integer_literal u = (length (filter is_digit u) \<le> 4300))"
  using assms
  by (simp add: parse_args_change_threshold parse_args_send_ether parse_args_send_erc20
        parse_args_send_erc721 base10_is_argument base10_ascii_token base10_integer_literal
        py_int_token py_int_literal [symmetric])

text \<open>
  \<open>-3\<close> and \<open>1000000\<close> parse, \<open>three\<close> and \<open>3x\<close> end in "invalid int value"; \<open>-3\<close> is a base-10
  signed integer of one digit.
\<close>

theorem C9_witness:
  "parse_args sample_isChecksumAddress [''change_threshold'', ''-3''] =
     Inr \<lparr>attrs = [(''threshold'', VInt (- 3))], func = Some change_threshold, unrecognized = []\<rparr>
   \<and> parse_args sample_isChecksumAddress [''change_threshold'', ''three''] =
     Inl (Error (InvalidValue ''threshold'' ''int'' ''three''))
   \<and> parse_args sample_isChecksumAddress [''change_threshold'', ''3x''] =
     Inl (Error (InvalidValue ''threshold'' ''int'' ''3x''))
   \<and> parse_args sample_isChecksumAddress [''send_ether'', ''0x5aAeb6053F3E94C9b9A09f33669435E7Ef1BeAed'', ''1000000''] =
     Inr \<lparr>attrs = [(''address'', VStr ''0x5aAeb6053F3E94C9b9A09f33669435E7Ef1BeAed''), (''value'', VInt 1000000)],
          func = Some send_ether, unrecognized = []\<rparr>
   \<and> parse_args sample_isChecksumAddress [''send_erc20'', ''0x5aAeb6053F3E94C9b9A09f33669435E7Ef1BeAed'', ''0xfB6916095ca1df60bB79Ce92cE3Ea74c37c5d359'', ''7''] =
     Inr \<lparr>attrs = [(''address'', VStr ''0x5aAeb6053F3E94C9b9A09f33669435E7Ef1BeAed''), (''token_address'', VStr ''0xfB6916095ca1df60bB79Ce92cE3Ea74c37c5d359''), (''value'', VInt 7)],
          func = Some send_erc20, unrecognized = []\<rparr>
   \<and> parse_args sample_isChecksumAddress [''send_erc721'', ''0x5aAeb6053F3E94C9b9A09f33669435E7Ef1BeAed'', ''0xfB6916095ca1df60bB79Ce92cE3Ea74c37c5d359'', ''7''] =
     Inr \<lparr>attrs = [(''address'', VStr ''0x5aAeb6053F3E94C9b9A09f33669435E7Ef1BeAed''), (''token_address'', VStr ''0xfB6916095ca1df60bB79Ce92cE3Ea74c37c5d359''), (''token_id'', VInt 7)],
          func = Some send_erc721, unrecognized = []\<rparr>
   \<and> ascii_token ''3x'' \<and> \<not> integer_literal ''3x'' \<and> py_int ''3x'' = Inl ValueError
   \<and> base10_signed_integer ''-3'' \<and> is_argument ''-3'' \<and> ascii_token ''-3''
   \<and> integer_literal ''-3'' \<and> integer_literal_value ''-3'' = - 3 \<and> py_int ''-3'' = Inr (- 3)"
proof -
  have 1: "is_argument ''-3''"
    by (rule negative_digits_is_argument) (simp_all add: is_digit_def)
  have 2: "is_argument ''three''" "is_argument ''1000000''" "is_argument ''7''"
    "is_argument ''0x5aAeb6053F3E94C9b9A09f33669435E7Ef1BeAed''" "is_argument ''0xfB6916095ca1df60bB79Ce92cE3Ea74c37c5d359''"
    "is_argument ''3x''"
    by (simp_all add: is_argument_no_dash)
  have 3: "sample_isChecksumAddress ''0x5aAeb6053F3E94C9b9A09f33669435E7Ef1BeAed''" "sample_isChecksumAddress ''0xfB6916095ca1df60bB79Ce92cE3Ea74c37c5d359''"
    by (simp_all add: sample_isChecksumAddress_def)
  have 4: "base10_signed_integer ''-3''"
    by (simp add: base10_signed_integer_def is_digit_def)
  have 5: "ascii_token ''3x''"
    by (simp add: ascii_token_def is_ascii_def is_space_def)
  have 6: "\<not> integer_literal ''3x''" "integer_literal_value ''-3'' = - 3"
    by (simp_all add: integer_literal_def integer_literal_value_def unsigned_part_def
          digit_groups_def decimal_value_def is_digit_def digit_val_def)
  from C9_integer_slot_follows_int
         [OF 1, where isChecksumAddress = sample_isChecksumAddress and x = "''-3''" and u = "''-3''"]
       C9_integer_slot_follows_int [OF 2(1), where isChecksumAddress = sample_isChecksumAddress]
       C9_integer_slot_follows_int
         [OF 2(6), where isChecksumAddress = sample_isChecksumAddress and x = "''3x''"]
       C9_integer_slot_follows_int
         [OF 2(2), where isChecksumAddress = sample_isChecksumAddress
            and a = "''0x5aAeb6053F3E94C9b9A09f33669435E7Ef1BeAed''"]
       C9_integer_slot_follows_int
         [OF 2(3), where isChecksumAddress = sample_isChecksumAddress
            and a = "''0x5aAeb6053F3E94C9b9A09f33669435E7Ef1BeAed''"
            and b = "''0xfB6916095ca1df60bB79Ce92cE3Ea74c37c5d359''"]
       2 3 4 5 6
  show ?thesis
    by (simp add: int_defs)
qed

subsection \<open>C10: an API failure without text\<close>

text \<open>
  Claim C10. A \<open>BaseAPIException\<close> without payload is swallowed: the wrapper returns \<open>None\<close>,
  raises nothing and leaves the world as the wrapped function left it.
\<close>

theorem C10_empty_BaseAPIException_is_swallowed:
  assumes "fn a w = (Inl (Exn BaseAPIException []), w')"
  shows "safe_exception HTML fn a w = (Inr None, w')"
  using assms by (simp add: wrapper_defs)

theorem C10_witness:
  "safe_exception sample_HTML (\<lambda>a w. (Inl (Exn BaseAPIException []), w)) ()
       \<lparr>console = [], argparse_output = [], calls = []\<rparr>
     = (Inr None, \<lparr>console = [], argparse_output = [], calls = []\<rparr>)"
  using C10_empty_BaseAPIException_is_swallowed
      [where HTML = sample_HTML and fn = "\<lambda>a w. (Inl (Exn BaseAPIException []), w)"
         and a = "()" and w = "\<lparr>console = [], argparse_output = [], calls = []\<rparr>"
         and w' = "\<lparr>console = [], argparse_output = [], calls = []\<rparr>"]
  by simp

end
